theory Spec2Isabelle
  imports Main
begin

section \<open>Values exchanged with the two trackers\<close>

text \<open>
  Responses of the issue tracker are decoded JSON: Python's \<open>None\<close>, booleans, integers,
  strings, lists and dictionaries. A dictionary is an association list; a lookup takes the
  first entry of a key. One element of a \<open>string\<close> stands for one character of a Python
  string.
\<close>

datatype json =
    JNull
  | JBool bool
  | JInt int
  | JStr string
  | JList "json list"
  | JDict "(string \<times> json) list"

text \<open>Python's truth value of a decoded value (\<open>if x:\<close>, \<open>a and b\<close>).\<close>

fun truthy :: "json \<Rightarrow> bool" where
  "truthy JNull = False"
| "truthy (JBool b) = b"
| "truthy (JInt i) = (i \<noteq> 0)"
| "truthy (JStr s) = (s \<noteq> [])"
| "truthy (JList xs) = (xs \<noteq> [])"
| "truthy (JDict kvs) = (kvs \<noteq> [])"

text \<open>
  The exceptions the two modules can meet. \<open>IOError\<close> is the class the assignee rule
  catches; \<open>ActionError\<close> is raised by the engine itself (its message is not modelled);
  \<open>OtherError\<close> is any other exception a client raises.
\<close>

datatype exn = IOError | ActionError | IndexError | KeyError | TypeError | AttributeError | OtherError

text \<open>\<open>d.get(k)\<close>: the value, or \<open>None\<close> for a missing key.\<close>

definition dict_get :: "(string \<times> json) list \<Rightarrow> string \<Rightarrow> json" where
  "dict_get d k = (case map_of d k of None \<Rightarrow> JNull | Some v \<Rightarrow> v)"

text \<open>\<open>v[k]\<close> with a string key: \<open>KeyError\<close> on a dictionary without the key, \<open>TypeError\<close>
  on a value that is not a dictionary.\<close>

definition subscript :: "json \<Rightarrow> string \<Rightarrow> exn + json" where
  "subscript v k =
     (case v of
        JDict d \<Rightarrow> (case map_of d k of None \<Rightarrow> Inl KeyError | Some x \<Rightarrow> Inr x)
      | _ \<Rightarrow> Inl TypeError)"

text \<open>\<open>str(n)\<close> for an integer, in decimal.\<close>

definition digit_char :: "nat \<Rightarrow> char" where
  "digit_char d = char_of (48 + d)"

function show_nat :: "nat \<Rightarrow> string" where
  "show_nat n = (if n < 10 then [digit_char n] else show_nat (n div 10) @ [digit_char (n mod 10)])"
  by pat_completeness auto
termination
  by (relation "measure (\<lambda>n. n)") auto

declare show_nat.simps [simp del]

definition show_int :: "int \<Rightarrow> string" where
  "show_int i = (if i < 0 then CHR ''-'' # show_nat (nat (- i)) else show_nat (nat i))"

section \<open>Bugs and events\<close>

text \<open>
  \<open>BugzillaBug\<close> and \<open>BugzillaWebhookEvent\<close> are declared in \<open>jbi.models\<close>; the records list
  the attributes the two action modules read (\<open>see_also\<close> and \<open>whiteboard\<close> are what the
  methods of the bug read). An attribute that may be \<open>None\<close> is an option.
\<close>

record BugzillaBug =
  bug_id :: int
  summary :: "string option"
  status :: "string option"
  resolution :: "string option"
  assigned_to :: "string option"
  comment :: "string option"
  see_also :: "string list"
  whiteboard :: "string option"

record BugzillaWebhookEvent =
  target :: string
  changes :: "string list option"

record BugzillaComment =
  comment_text :: string

text \<open>
  What the two modules import and do not define: the settings of \<open>jbi.environment\<close>, the
  methods of the classes of \<open>jbi.models\<close>, and Python's \<open>str()\<close> of a decoded value (used by
  the f-string that builds the issue URL). They are parameters of every definition below.
  \<open>map_changes_as_comments\<close> takes its keyword arguments as a list, empty when the caller
  leaves the defaults.
\<close>

record jbi =
  jira_base_url :: string
  bugzilla_base_url :: string
  py_str :: "json \<Rightarrow> string"
  extract_from_see_also :: "BugzillaBug \<Rightarrow> string option"
  map_event_as_comment :: "BugzillaBug \<Rightarrow> BugzillaWebhookEvent \<Rightarrow> string"
  map_changes_as_comments :: "BugzillaBug \<Rightarrow> BugzillaWebhookEvent \<Rightarrow> (string \<times> bool) list \<Rightarrow> string list"
  get_jira_labels :: "BugzillaBug \<Rightarrow> string list"
  issue_type :: "BugzillaBug \<Rightarrow> string"
  changed_fields :: "BugzillaWebhookEvent \<Rightarrow> string list option"

section \<open>Remote calls\<close>

text \<open>
  Every call to a client is recorded, in order, with its arguments. The issue key of a call
  is a decoded value, since the key of a new issue is read from the create response.
\<close>

datatype call =
    GetComments int
  | GetBug int
  | UpdateBug int string
  | CreateIssue "(string \<times> json) list"
  | UpdateIssueField json "(string \<times> json) list"
  | IssueAddComment json string
  | DeleteIssue json
  | SetIssueStatus json string
  | CreateOrUpdateIssueRemoteLinks json string string
  | UserFindByUserString "string option"

text \<open>
  A client method answers with a value or raises; its answer may depend on every call made
  before it, so the first argument after the call's own is the list of earlier calls.
\<close>

record bugzilla_service =
  get_comments :: "int \<Rightarrow> call list \<Rightarrow> exn + BugzillaComment list"
  get_bug :: "int \<Rightarrow> call list \<Rightarrow> exn + BugzillaBug"
  update_bug :: "int \<Rightarrow> string \<Rightarrow> call list \<Rightarrow> exn + json"

record jira_service =
  create_issue :: "(string \<times> json) list \<Rightarrow> call list \<Rightarrow> exn + json"
  update_issue_field :: "json \<Rightarrow> (string \<times> json) list \<Rightarrow> call list \<Rightarrow> exn + json"
  issue_add_comment :: "json \<Rightarrow> string \<Rightarrow> call list \<Rightarrow> exn + json"
  delete_issue :: "json \<Rightarrow> call list \<Rightarrow> exn + json"
  set_issue_status :: "json \<Rightarrow> string \<Rightarrow> call list \<Rightarrow> exn + json"
  create_or_update_issue_remote_links :: "json \<Rightarrow> string \<Rightarrow> string \<Rightarrow> call list \<Rightarrow> exn + json"
  user_find_by_user_string :: "string option \<Rightarrow> call list \<Rightarrow> exn + json list"

text \<open>
  An operation of the engine takes the calls made so far and returns its value, or the
  exception it raised, with the calls made up to then.
\<close>

type_synonym 'a action = "call list \<Rightarrow> (exn + 'a) \<times> call list"

definition ok :: "'a \<Rightarrow> 'a action" where
  "ok x = (\<lambda>tr. (Inr x, tr))"

definition bind :: "'a action \<Rightarrow> ('a \<Rightarrow> 'b action) \<Rightarrow> 'b action" where
  "bind m f = (\<lambda>tr. case m tr of (Inl e, tr') \<Rightarrow> (Inl e, tr') | (Inr x, tr') \<Rightarrow> f x tr')"

text \<open>A pure step that may raise (a subscript, an index).\<close>

definition lift :: "exn + 'a \<Rightarrow> 'a action" where
  "lift r = (\<lambda>tr. (r, tr))"

text \<open>A call to a client: it is recorded whether it returns or raises.\<close>

definition remote :: "call \<Rightarrow> (call list \<Rightarrow> exn + 'a) \<Rightarrow> 'a action" where
  "remote c respond = (\<lambda>tr. (respond tr, tr @ [c]))"

text \<open>\<open>try: body except IOError: handler\<close>.\<close>

definition except_IOError :: "'a action \<Rightarrow> 'a action \<Rightarrow> 'a action" where
  "except_IOError body handler =
     (\<lambda>tr. case body tr of (Inl e, tr') \<Rightarrow> (if e = IOError then handler tr' else (Inl e, tr'))
                         | (Inr x, tr') \<Rightarrow> (Inr x, tr'))"

section \<open>The executors\<close>

text \<open>
  \<open>DefaultExecutor\<close> and its subclass \<open>AssigneeAndStatusExecutor\<close>, which adds the two
  mapping tables and overrides \<open>jira_comments_for_update\<close> and \<open>update_issue\<close>.
\<close>

datatype executor_class =
    DefaultExecutor
  | AssigneeAndStatusExecutor "string \<rightharpoonup> string" "string \<rightharpoonup> string"

record executor =
  cls :: executor_class
  jira_project_key :: string
  sync_whiteboard_labels :: bool
  bugzilla_client :: bugzilla_service
  jira_client :: jira_service

type_synonym ActionResult = "bool \<times> (string \<times> json) list"

definition JIRA_DESCRIPTION_CHAR_LIMIT :: nat where
  "JIRA_DESCRIPTION_CHAR_LIMIT = 32767"

text \<open>An optional string as a decoded value, and the test \<open>if not key\<close> on it.\<close>

definition of_opt :: "string option \<Rightarrow> json" where
  "of_opt s = (case s of None \<Rightarrow> JNull | Some x \<Rightarrow> JStr x)"

definition falsy_key :: "string option \<Rightarrow> bool" where
  "falsy_key k = (case k of None \<Rightarrow> True | Some s \<Rightarrow> s = [])"

subsection \<open>default.py\<close>

text \<open>\<open>comment_create_or_noop\<close> (lines 73 to 113).\<close>

definition comment_create_or_noop ::
  "jbi \<Rightarrow> executor \<Rightarrow> BugzillaBug \<Rightarrow> BugzillaWebhookEvent \<Rightarrow> ActionResult action" where
  "comment_create_or_noop J self bug event =
     (let linked_issue_key = extract_from_see_also J bug in
      if falsy_key linked_issue_key then ok (False, [])
      else if comment bug = None then ok (False, [])
      else
        let formatted_comment = map_event_as_comment J bug event in
        bind (remote (IssueAddComment (of_opt linked_issue_key) formatted_comment)
                (issue_add_comment (jira_client self) (of_opt linked_issue_key) formatted_comment))
          (\<lambda>jira_response. ok (True, [(''jira_response'', jira_response)])))"

text \<open>\<open>jira_fields\<close> (lines 115 to 124).\<close>

definition jira_fields :: "jbi \<Rightarrow> executor \<Rightarrow> BugzillaBug \<Rightarrow> (string \<times> json) list" where
  "jira_fields J self bug =
     (let fields = [(''summary'', of_opt (summary bug))] in
      if sync_whiteboard_labels self
      then fields @ [(''labels'', JList (map JStr (get_jira_labels J bug)))]
      else fields)"

text \<open>\<open>jira_comments_for_update\<close>, with the override of the subclass.\<close>

definition jira_comments_for_update ::
  "jbi \<Rightarrow> executor \<Rightarrow> BugzillaBug \<Rightarrow> BugzillaWebhookEvent \<Rightarrow> string list" where
  "jira_comments_for_update J self bug event =
     (case cls self of
        DefaultExecutor \<Rightarrow> map_changes_as_comments J bug event []
      | AssigneeAndStatusExecutor _ _ \<Rightarrow>
          map_changes_as_comments J bug event
            [(''status_log_enabled'', False), (''assignee_log_enabled'', False)])"

subsection \<open>default_with_assignee_and_status.py\<close>

text \<open>\<open>clear_assignee\<close>, the closure of \<open>update_issue\<close> (lines 73 to 79).\<close>

definition clear_assignee :: "executor \<Rightarrow> json \<Rightarrow> bool \<Rightarrow> unit action" where
  "clear_assignee self linked_issue_key is_new =
     (if \<not> is_new
      then bind (remote (UpdateIssueField linked_issue_key [(''assignee'', JNull)])
                   (update_issue_field (jira_client self) linked_issue_key [(''assignee'', JNull)]))
             (\<lambda>_. ok ())
      else ok ())"

text \<open>The first half of \<open>update_issue\<close>: the assignee (lines 81 to 116).\<close>

definition update_assignee ::
  "executor \<Rightarrow> BugzillaBug \<Rightarrow> string list \<Rightarrow> json \<Rightarrow> bool \<Rightarrow> unit action" where
  "update_assignee self bug changed linked_issue_key is_new =
     (if is_new \<or> ''assigned_to'' \<in> set changed then
        if assigned_to bug = Some ''nobody@mozilla.org'' then
          clear_assignee self linked_issue_key is_new
        else
          bind (remote (UserFindByUserString (assigned_to bug))
                  (user_find_by_user_string (jira_client self) (assigned_to bug)))
            (\<lambda>users.
               if length users = 1 then
                 except_IOError
                   (bind (lift (subscript (users ! 0) ''accountId''))
                      (\<lambda>account_id.
                         bind (remote (UpdateIssueField linked_issue_key
                                         [(''assignee'', JDict [(''accountId'', account_id)])])
                                 (update_issue_field (jira_client self) linked_issue_key
                                    [(''assignee'', JDict [(''accountId'', account_id)])]))
                           (\<lambda>_. ok ())))
                   (clear_assignee self linked_issue_key is_new)
               else clear_assignee self linked_issue_key is_new)
      else ok ())"

text \<open>
  \<open>m.get(k)\<close> on a mapping table, whose keys are strings, with a key that may be \<open>None\<close>;
  and \<open>a or b\<close> on two optional strings. A looked-up value passes \<open>if value:\<close> when it
  is a non-empty string.
\<close>

definition map_get :: "(string \<rightharpoonup> string) \<Rightarrow> string option \<Rightarrow> string option" where
  "map_get m k = (case k of None \<Rightarrow> None | Some s \<Rightarrow> m s)"

definition py_or :: "string option \<Rightarrow> string option \<Rightarrow> string option" where
  "py_or a b = (if falsy_key a then b else a)"

text \<open>The second half of \<open>update_issue\<close>: resolution and status (lines 118 to 166).\<close>

definition update_status ::
  "(string \<rightharpoonup> string) \<Rightarrow> (string \<rightharpoonup> string) \<Rightarrow> executor \<Rightarrow> BugzillaBug \<Rightarrow> string list
     \<Rightarrow> json \<Rightarrow> bool \<Rightarrow> unit action" where
  "update_status status_map resolution_map self bug changed linked_issue_key is_new =
     (if is_new \<or> ''status'' \<in> set changed \<or> ''resolution'' \<in> set changed then
        let bz_resolution = resolution bug in
        bind (case map_get resolution_map bz_resolution of
                None \<Rightarrow> ok ()
              | Some jira_resolution \<Rightarrow>
                  if jira_resolution \<noteq> [] then
                    bind (remote (UpdateIssueField linked_issue_key
                                    [(''resolution'', JStr jira_resolution)])
                            (update_issue_field (jira_client self) linked_issue_key
                               [(''resolution'', JStr jira_resolution)]))
                      (\<lambda>_. ok ())
                  else ok ())
          (\<lambda>_.
             let bz_status = py_or bz_resolution (status bug) in
             case map_get status_map bz_status of
               None \<Rightarrow> ok ()
             | Some jira_status \<Rightarrow>
                 if jira_status \<noteq> [] then
                   bind (remote (SetIssueStatus linked_issue_key jira_status)
                           (set_issue_status (jira_client self) linked_issue_key jira_status))
                     (\<lambda>_. ok ())
                 else ok ())
      else ok ())"

text \<open>
  \<open>update_issue\<close>: nothing in the base class (default.py, lines 134 to 141), the two rules
  in the subclass (lines 51 to 166).
\<close>

definition update_issue ::
  "jbi \<Rightarrow> executor \<Rightarrow> BugzillaBug \<Rightarrow> BugzillaWebhookEvent \<Rightarrow> json \<Rightarrow> bool \<Rightarrow> unit action" where
  "update_issue J self bug event linked_issue_key is_new =
     (case cls self of
        DefaultExecutor \<Rightarrow> ok ()
      | AssigneeAndStatusExecutor status_map resolution_map \<Rightarrow>
          (let changed = (case changed_fields J event of None \<Rightarrow> [] | Some fs \<Rightarrow> fs) in
           bind (update_assignee self bug changed linked_issue_key is_new)
             (\<lambda>_. update_status status_map resolution_map self bug changed linked_issue_key is_new)))"

text \<open>\<open>event.changed_fields() or []\<close>, as \<open>update_issue\<close> reads it.\<close>

abbreviation changed_of :: "jbi \<Rightarrow> BugzillaWebhookEvent \<Rightarrow> string list" where
  "changed_of J event \<equiv> (case changed_fields J event of None \<Rightarrow> [] | Some fs \<Rightarrow> fs)"

subsection \<open>default.py, continued\<close>

text \<open>The loop of \<open>bug_create_or_update\<close> that posts the comments (lines 172 to 184).\<close>

fun add_comments :: "executor \<Rightarrow> json \<Rightarrow> string list \<Rightarrow> json list action" where
  "add_comments self linked_issue_key [] = ok []"
| "add_comments self linked_issue_key (c # cs) =
     bind (remote (IssueAddComment linked_issue_key c)
             (issue_add_comment (jira_client self) linked_issue_key c))
       (\<lambda>r. bind (add_comments self linked_issue_key cs) (\<lambda>rs. ok (r # rs)))"

text \<open>
  The check of the create response (lines 221 to 234): the first element of a list, no
  truthy \<open>errors\<close> or \<open>errorMessages\<close> entry in a dictionary, then \<open>.get("key")\<close>, which
  only a dictionary has.
\<close>

definition has_errors :: "(string \<times> json) list \<Rightarrow> bool" where
  "has_errors d =
     list_ex (\<lambda>element. element \<in> set [''errors'', ''errorMessages''] \<and> truthy (dict_get d element))
       (map fst d)"

definition key_in_response :: "json \<Rightarrow> exn + json" where
  "key_in_response jira_response_create =
     (case (case jira_response_create of
              JList [] \<Rightarrow> Inl IndexError
            | JList (x # _) \<Rightarrow> Inr x
            | r \<Rightarrow> Inr r) of
        Inl e \<Rightarrow> Inl e
      | Inr (JDict d) \<Rightarrow> if has_errors d then Inl ActionError else Inr (dict_get d ''key'')
      | Inr _ \<Rightarrow> Inl AttributeError)"

text \<open>\<open>create_and_link_issue\<close> (lines 190 to 293).\<close>

definition create_fields :: "jbi \<Rightarrow> executor \<Rightarrow> BugzillaBug \<Rightarrow> string \<Rightarrow> (string \<times> json) list" where
  "create_fields J self bug description =
     jira_fields J self bug @
     [(''issuetype'', JDict [(''name'', JStr (issue_type J bug))]),
      (''description'', JStr description),
      (''project'', JDict [(''key'', JStr (jira_project_key self))])]"

definition create_and_link_issue ::
  "jbi \<Rightarrow> executor \<Rightarrow> BugzillaBug \<Rightarrow> BugzillaWebhookEvent \<Rightarrow> ActionResult action" where
  "create_and_link_issue J self bug event =
     bind (remote (GetComments (bug_id bug)) (get_comments (bugzilla_client self) (bug_id bug)))
     (\<lambda>comment_list.
     bind (lift (case comment_list of [] \<Rightarrow> Inl IndexError | c # _ \<Rightarrow> Inr c))
     (\<lambda>first_comment.
     let description = take JIRA_DESCRIPTION_CHAR_LIMIT (comment_text first_comment);
         fields = create_fields J self bug description in
     bind (remote (CreateIssue fields) (create_issue (jira_client self) fields))
     (\<lambda>jira_response_create.
     bind (lift (key_in_response jira_response_create))
     (\<lambda>jira_key_in_response.
     bind (remote (GetBug (bug_id bug)) (get_bug (bugzilla_client self) (bug_id bug)))
     (\<lambda>bug.
     let jira_key_in_bugzilla = extract_from_see_also J bug;
         duplicate_creation_event =
           (jira_key_in_bugzilla \<noteq> None \<and> jira_key_in_response \<noteq> of_opt jira_key_in_bugzilla) in
     if duplicate_creation_event then
       bind (remote (DeleteIssue jira_key_in_response)
               (delete_issue (jira_client self) jira_key_in_response))
         (\<lambda>jira_response_delete. ok (True, [(''jira_response'', jira_response_delete)]))
     else
       let jira_url = jira_base_url J @ ''browse/'' @ py_str J jira_key_in_response in
       bind (remote (UpdateBug (bug_id bug) jira_url)
               (update_bug (bugzilla_client self) (bug_id bug) jira_url))
       (\<lambda>bugzilla_response.
       let bugzilla_url = bugzilla_base_url J @ ''/show_bug.cgi?id='' @ show_int (bug_id bug) in
       bind (remote (CreateOrUpdateIssueRemoteLinks jira_key_in_response bugzilla_url bugzilla_url)
               (create_or_update_issue_remote_links (jira_client self)
                  jira_key_in_response bugzilla_url bugzilla_url))
       (\<lambda>jira_response.
       bind (update_issue J self bug event jira_key_in_response True)
       (\<lambda>_. ok (True, [(''bugzilla_response'', bugzilla_response),
                        (''jira_response'', jira_response)])))))))))"

text \<open>\<open>bug_create_or_update\<close> (lines 143 to 188).\<close>

definition bug_create_or_update ::
  "jbi \<Rightarrow> executor \<Rightarrow> BugzillaBug \<Rightarrow> BugzillaWebhookEvent \<Rightarrow> ActionResult action" where
  "bug_create_or_update J self bug event =
     (let linked_issue_key = extract_from_see_also J bug in
      if falsy_key linked_issue_key then create_and_link_issue J self bug event
      else
        bind (remote (UpdateIssueField (of_opt linked_issue_key) (jira_fields J self bug))
                (update_issue_field (jira_client self) (of_opt linked_issue_key)
                   (jira_fields J self bug)))
        (\<lambda>jira_response_update.
        let comments = jira_comments_for_update J self bug event in
        bind (add_comments self (of_opt linked_issue_key) comments)
        (\<lambda>jira_response_comments.
        bind (update_issue J self bug event (of_opt linked_issue_key) False)
        (\<lambda>_. ok (True, [(''jira_responses'',
                           JList [jira_response_update, JList jira_response_comments])])))))"

text \<open>\<open>__call__\<close> (lines 51 to 71).\<close>

definition executor_call ::
  "jbi \<Rightarrow> executor \<Rightarrow> BugzillaBug \<Rightarrow> BugzillaWebhookEvent \<Rightarrow> ActionResult action" where
  "executor_call J self bug event =
     (if target event = ''comment'' then comment_create_or_noop J self bug event
      else if target event = ''bug'' then bug_create_or_update J self bug event
      else ok (False, []))"

section \<open>Observing the calls\<close>

text \<open>
  \<open>issues P m\<close>: whatever was called before, the operation \<open>m\<close> only adds calls, and every
  call it adds satisfies \<open>P\<close>.
\<close>

definition issues :: "(call \<Rightarrow> bool) \<Rightarrow> 'a action \<Rightarrow> bool" where
  "issues P m = (\<forall>tr. \<exists>ext. snd (m tr) = tr @ ext \<and> list_all P ext)"

fun is_create_issue :: "call \<Rightarrow> bool" where
  "is_create_issue (CreateIssue _) = True"
| "is_create_issue _ = False"

text \<open>The field payload a call sends to the issue tracker, empty for a call without one.\<close>

fun payload :: "call \<Rightarrow> (string \<times> json) list" where
  "payload (CreateIssue fs) = fs"
| "payload (UpdateIssueField _ fs) = fs"
| "payload _ = []"

definition has_labels :: "call \<Rightarrow> bool" where
  "has_labels c = (''labels'' \<in> fst ` set (payload c))"

text \<open>The comment texts posted by a list of calls, in order.\<close>

fun comments_posted :: "call list \<Rightarrow> string list" where
  "comments_posted [] = []"
| "comments_posted (IssueAddComment _ c # cs) = c # comments_posted cs"
| "comments_posted (_ # cs) = comments_posted cs"

fun is_add_comment :: "call \<Rightarrow> bool" where
  "is_add_comment (IssueAddComment _ _) = True"
| "is_add_comment _ = False"

text \<open>The calls of the assignee rule: the user lookup and a field update that carries \<open>assignee\<close>.\<close>

fun assignee_call :: "call \<Rightarrow> bool" where
  "assignee_call (UserFindByUserString _) = True"
| "assignee_call (UpdateIssueField _ fs) = (''assignee'' \<in> fst ` set fs)"
| "assignee_call _ = False"

section \<open>A concrete configuration\<close>

text \<open>
  One instance of the parameters, on which the theorems below are run: trackers that accept
  every call, a link resolver that takes the last path segment of the first reference URL,
  and one comment per changed field.
\<close>

definition key_of_url :: "string \<Rightarrow> string" where
  "key_of_url u = rev (takeWhile (\<lambda>c. c \<noteq> CHR ''/'') (rev u))"

definition demo_jbi :: jbi where
  "demo_jbi =
     \<lparr>jira_base_url = ''https://jira.test/'',
      bugzilla_base_url = ''https://bugzilla.test'',
      py_str = (\<lambda>v. case v of JStr s \<Rightarrow> s | _ \<Rightarrow> ''None''),
      extract_from_see_also = (\<lambda>b. case see_also b of [] \<Rightarrow> None | u # _ \<Rightarrow> Some (key_of_url u)),
      map_event_as_comment = (\<lambda>b e. case comment b of None \<Rightarrow> [] | Some c \<Rightarrow> c),
      map_changes_as_comments =
        (\<lambda>b e kw. map (\<lambda>f. f @ '' changed'') (case changes e of None \<Rightarrow> [] | Some fs \<Rightarrow> fs)),
      get_jira_labels = (\<lambda>b. case whiteboard b of None \<Rightarrow> [''bugzilla''] | Some w \<Rightarrow> [''bugzilla'', w]),
      issue_type = (\<lambda>b. ''Bug''),
      changed_fields = changes\<rparr>"

definition demo_bug :: BugzillaBug where
  "demo_bug =
     \<lparr>bug_id = 42, summary = Some ''Crash'', status = Some ''NEW'', resolution = Some [],
      assigned_to = Some ''dev@mozilla.org'', comment = None, see_also = [],
      whiteboard = Some ''[perf]''\<rparr>"

definition demo_linked_bug :: BugzillaBug where
  "demo_linked_bug = demo_bug\<lparr>see_also := [''https://jira.test/browse/JBI-1'']\<rparr>"

definition demo_event :: BugzillaWebhookEvent where
  "demo_event = \<lparr>target = ''bug'', changes = Some [''summary'']\<rparr>"

definition demo_bugzilla :: bugzilla_service where
  "demo_bugzilla =
     \<lparr>get_comments = (\<lambda>i tr. Inr [\<lparr>comment_text = ''Steps''\<rparr>]),
      get_bug = (\<lambda>i tr. Inr demo_bug),
      update_bug = (\<lambda>i url tr. Inr JNull)\<rparr>"

definition demo_jira :: jira_service where
  "demo_jira =
     \<lparr>create_issue = (\<lambda>fields tr. Inr (JDict [(''key'', JStr ''JBI-2'')])),
      update_issue_field = (\<lambda>k fields tr. Inr JNull),
      issue_add_comment = (\<lambda>k c tr. Inr (JStr c)),
      delete_issue = (\<lambda>k tr. Inr JNull),
      set_issue_status = (\<lambda>k s tr. Inr JNull),
      create_or_update_issue_remote_links = (\<lambda>k url title tr. Inr JNull),
      user_find_by_user_string = (\<lambda>q tr. Inr [JDict [(''accountId'', JStr ''a1'')]])\<rparr>"

definition demo_executor :: executor where
  "demo_executor =
     \<lparr>cls = DefaultExecutor, jira_project_key = ''JBI'', sync_whiteboard_labels = True,
      bugzilla_client = demo_bugzilla, jira_client = demo_jira\<rparr>"

text \<open>Variations of it: trackers that refuse or race, a long first comment, the reconciler.\<close>

definition rejecting_create :: executor where
  "rejecting_create =
     demo_executor\<lparr>jira_client := demo_jira\<lparr>create_issue :=
       (\<lambda>fields tr. Inr (JList [JDict [(''errorMessages'', JList [JStr ''no summary'']),
                                        (''errors'', JDict [])]]))\<rparr>\<rparr>"

definition racing :: executor where
  "racing = demo_executor\<lparr>bugzilla_client := demo_bugzilla\<lparr>get_bug := (\<lambda>i tr. Inr demo_linked_bug)\<rparr>\<rparr>"

definition demo_create_fields :: "(string \<times> json) list" where
  "demo_create_fields =
     [(''summary'', JStr ''Crash''),
      (''labels'', JList [JStr ''bugzilla'', JStr ''[perf]'']),
      (''issuetype'', JDict [(''name'', JStr ''Bug'')]),
      (''description'', JStr ''Steps''),
      (''project'', JDict [(''key'', JStr ''JBI'')])]"

definition long_description :: executor where
  "long_description =
     demo_executor\<lparr>bugzilla_client := demo_bugzilla\<lparr>get_comments :=
       (\<lambda>i tr. Inr [\<lparr>comment_text = replicate 40000 (CHR ''x'')\<rparr>])\<rparr>\<rparr>"

definition no_labels :: executor where
  "no_labels = demo_executor\<lparr>sync_whiteboard_labels := False\<rparr>"

definition reconciler :: executor where
  "reconciler =
     demo_executor\<lparr>cls := AssigneeAndStatusExecutor
       [''NEW'' \<mapsto> ''To Do'', ''FIXED'' \<mapsto> ''Done''] [''FIXED'' \<mapsto> ''Fixed'']\<rparr>"

definition failing_set :: executor where
  "failing_set =
     reconciler\<lparr>jira_client := demo_jira\<lparr>update_issue_field :=
       (\<lambda>k fields tr. if fields = [(''assignee'', JNull)] then Inr JNull else Inl IOError)\<rparr>\<rparr>"

definition no_accounts :: executor where
  "no_accounts =
     reconciler\<lparr>jira_client := demo_jira\<lparr>user_find_by_user_string := (\<lambda>q tr. Inr [])\<rparr>\<rparr>"

definition unmapped_bug :: BugzillaBug where
  "unmapped_bug = demo_linked_bug\<lparr>status := Some ''UNCONFIRMED''\<rparr>"

definition empty_value :: executor where
  "empty_value = demo_executor\<lparr>cls := AssigneeAndStatusExecutor Map.empty [''FIXED'' \<mapsto> []]\<rparr>"

definition empty_key :: executor where
  "empty_key = demo_executor\<lparr>cls := AssigneeAndStatusExecutor Map.empty [[] \<mapsto> ''Unresolved'']\<rparr>"

definition listed_create :: executor where
  "listed_create =
     demo_executor\<lparr>jira_client := demo_jira\<lparr>create_issue :=
       (\<lambda>fields tr. Inr (JList [JDict [(''key'', JStr ''JBI-2''), (''errors'', JDict [])],
                                  JDict [(''errorMessages'', JList [JStr ''no summary''])]]))\<rparr>\<rparr>"

lemmas demo_defs =
  demo_jbi_def demo_bug_def demo_linked_bug_def demo_event_def demo_bugzilla_def demo_jira_def
  demo_executor_def key_of_url_def

lemmas hook_defs =
  demo_defs reconciler_def failing_set_def no_accounts_def empty_key_def empty_value_def
  unmapped_bug_def

section \<open>The operations on a trace\<close>

lemma bind_ok [simp]: "bind (ok x) f = f x"
  by (simp add: bind_def ok_def)

lemma ok_apply [simp]: "ok x tr = (Inr x, tr)"
  by (simp add: ok_def)

lemma bind_returned [simp]: "bind (Pair (Inr x)) f = f x"
  by (simp add: bind_def fun_eq_iff)

lemma bind_remote [simp]:
  "bind (remote c respond) f tr =
     (case respond tr of Inl e \<Rightarrow> (Inl e, tr @ [c]) | Inr x \<Rightarrow> f x (tr @ [c]))"
  by (simp add: bind_def remote_def split: sum.splits)

lemma bind_lift [simp]:
  "bind (lift r) f tr = (case r of Inl e \<Rightarrow> (Inl e, tr) | Inr x \<Rightarrow> f x tr)"
  by (simp add: bind_def lift_def split: sum.splits)

lemma bind_assoc: "bind (bind m f) g = bind m (\<lambda>x. bind (f x) g)"
  by (auto simp: bind_def fun_eq_iff split: prod.splits sum.splits)

lemma issues_ok [intro!, simp]: "issues P (ok x)"
  by (simp add: issues_def)

lemma issues_lift [intro!, simp]: "issues P (lift r)"
  by (simp add: issues_def lift_def)

lemma issues_remote [intro!]: "P c \<Longrightarrow> issues P (remote c respond)"
  by (simp add: issues_def remote_def)

lemma issues_bind [intro!]:
  assumes "issues P m" and "\<And>x. issues P (f x)"
  shows "issues P (bind m f)"
  unfolding issues_def
proof
  fix tr
  from assms(1) obtain e1 where e1: "snd (m tr) = tr @ e1" "list_all P e1"
    unfolding issues_def by blast
  show "\<exists>ext. snd (bind m f tr) = tr @ ext \<and> list_all P ext"
  proof (cases "m tr")
    case (Pair r tr')
    with e1 have tr': "tr' = tr @ e1" by simp
    show ?thesis
    proof (cases r)
      case (Inl e)
      with Pair tr' e1 show ?thesis by (simp add: bind_def)
    next
      case (Inr x)
      from assms(2) [of x] obtain e2 where e2: "snd (f x tr') = tr' @ e2" "list_all P e2"
        unfolding issues_def by blast
      with Pair Inr tr' e1 show ?thesis by (simp add: bind_def)
    qed
  qed
qed

lemma issues_except [intro!]:
  assumes "issues P body" and "issues P handler"
  shows "issues P (except_IOError body handler)"
  unfolding issues_def
proof
  fix tr
  from assms(1) obtain e1 where e1: "snd (body tr) = tr @ e1" "list_all P e1"
    unfolding issues_def by blast
  from assms(2) obtain e2 where e2: "snd (handler (tr @ e1)) = (tr @ e1) @ e2" "list_all P e2"
    unfolding issues_def by blast
  show "\<exists>ext. snd (except_IOError body handler tr) = tr @ ext \<and> list_all P ext"
  proof (cases "body tr")
    case (Pair r tr')
    with e1 have tr': "tr' = tr @ e1" by simp
    with Pair e1 e2 show ?thesis
      by (cases r) (auto simp: except_IOError_def)
  qed
qed

lemma issuesD: "issues P m \<Longrightarrow> \<exists>ext. snd (m tr) = tr @ ext \<and> list_all P ext"
  by (simp add: issues_def)

lemma clear_assignee_new [simp]: "clear_assignee self k True tr = (Inr (), tr)"
  by (simp add: clear_assignee_def)

lemma clear_assignee_old [simp]:
  "clear_assignee self k False tr =
     (map_sum id (\<lambda>_. ()) (update_issue_field (jira_client self) k [(''assignee'', JNull)] tr),
      tr @ [UpdateIssueField k [(''assignee'', JNull)]])"
  by (simp add: clear_assignee_def split: sum.splits)

section \<open>Which calls each operation can make\<close>

lemma issues_clear_assignee:
  "P (UpdateIssueField k [(''assignee'', JNull)]) \<Longrightarrow> issues P (clear_assignee self k is_new)"
  by (auto simp: clear_assignee_def)

lemma issues_update_assignee:
  assumes "P (UserFindByUserString (assigned_to bug))"
    and "\<And>v. P (UpdateIssueField k [(''assignee'', v)])"
  shows "issues P (update_assignee self bug changed k is_new)"
  unfolding update_assignee_def
  using assms by (auto intro!: issues_clear_assignee)

lemma issues_update_status:
  assumes "\<And>v. P (UpdateIssueField k [(''resolution'', v)])"
    and "\<And>s. P (SetIssueStatus k s)"
  shows "issues P (update_status smap rmap self bug changed k is_new)"
  unfolding update_status_def Let_def
  using assms by (auto split: option.splits)

lemma issues_update_issue:
  assumes "\<And>q. P (UserFindByUserString q)"
    and "\<And>v. P (UpdateIssueField k [(''assignee'', v)])"
    and "\<And>v. P (UpdateIssueField k [(''resolution'', v)])"
    and "\<And>s. P (SetIssueStatus k s)"
  shows "issues P (update_issue J self bug event k is_new)"
  unfolding update_issue_def Let_def
  using assms by (auto split: executor_class.splits intro!: issues_update_assignee issues_update_status)

lemma issues_add_comments:
  "(\<And>c. P (IssueAddComment k c)) \<Longrightarrow> issues P (add_comments self k cs)"
  by (induction cs) auto

lemma bind_remote_calls:
  assumes "\<And>x. issues P (f x)"
  shows "\<exists>ext. snd (bind (remote c respond) f tr) = tr @ c # ext \<and> list_all P ext"
proof (cases "respond tr")
  case (Inl e)
  then show ?thesis by simp
next
  case (Inr x)
  from issuesD [OF assms [of x], of "tr @ [c]"] Inr show ?thesis by auto
qed

lemma bind_remote_calls_after:
  assumes "\<And>x. issues P (f x)"
  shows "\<exists>ext. snd (bind (remote c respond) f (tr @ [c0])) = tr @ c0 # c # ext \<and> list_all P ext"
  using bind_remote_calls [of P f c respond "tr @ [c0]", OF assms] by simp

lemma create_and_link_calls:
  assumes comments: "get_comments (bugzilla_client self) (bug_id bug) tr = Inr (c # cs)"
    and P: "\<And>i. P (GetBug i)" "\<And>i u. P (UpdateBug i u)" "\<And>k. P (DeleteIssue k)"
      "\<And>k u t. P (CreateOrUpdateIssueRemoteLinks k u t)"
      "\<And>q. P (UserFindByUserString q)"
      "\<And>k v. P (UpdateIssueField k [(''assignee'', v)])"
      "\<And>k v. P (UpdateIssueField k [(''resolution'', v)])"
      "\<And>k s. P (SetIssueStatus k s)"
  shows "\<exists>ext. snd (create_and_link_issue J self bug event tr) =
           tr @ GetComments (bug_id bug)
              # CreateIssue (create_fields J self bug
                               (take JIRA_DESCRIPTION_CHAR_LIMIT (comment_text c))) # ext
           \<and> list_all P ext"
  unfolding create_and_link_issue_def
  apply (subst bind_remote)
  apply (simp only: comments sum.case)
  apply (subst bind_lift)
  apply (simp only: list.case sum.case Let_def)
  apply (rule bind_remote_calls_after)
  apply (auto intro!: issues_update_issue simp: P)
  done

lemma bind_remote_calls_third:
  assumes "\<And>x. issues (\<lambda>_. True) (f x)"
  shows "\<exists>ext. snd (bind (remote c respond) f ((tr @ [c0]) @ [c1])) = tr @ c0 # c1 # c # ext"
  using bind_remote_calls [of "\<lambda>_. True" f c respond "(tr @ [c0]) @ [c1]", OF assms] by auto

lemma create_path_refetch:
  assumes comments: "get_comments (bugzilla_client self) (bug_id bug) tr = Inr (c # cs)"
    and created: "create_issue (jira_client self)
                    (create_fields J self bug (take JIRA_DESCRIPTION_CHAR_LIMIT (comment_text c)))
                    (tr @ [GetComments (bug_id bug)]) = Inr response"
    and key: "key_in_response response = Inr K"
  shows "\<exists>ext. snd (create_and_link_issue J self bug event tr) =
           tr @ GetComments (bug_id bug)
              # CreateIssue (create_fields J self bug
                               (take JIRA_DESCRIPTION_CHAR_LIMIT (comment_text c)))
              # GetBug (bug_id bug) # ext"
  unfolding create_and_link_issue_def
  apply (subst bind_remote)
  apply (simp only: comments sum.case)
  apply (subst bind_lift)
  apply (simp only: list.case sum.case Let_def)
  apply (subst bind_remote)
  apply (simp only: created sum.case)
  apply (subst bind_lift)
  apply (simp only: key sum.case)
  apply (rule bind_remote_calls_third)
  apply (auto intro!: issues_update_issue)
  done

lemma issues_create_and_link_issue:
  assumes P: "\<And>i. P (GetComments i)" "\<And>d. P (CreateIssue (create_fields J self bug d))"
      "\<And>i. P (GetBug i)" "\<And>i u. P (UpdateBug i u)" "\<And>k. P (DeleteIssue k)"
      "\<And>k u t. P (CreateOrUpdateIssueRemoteLinks k u t)"
      "\<And>q. P (UserFindByUserString q)"
      "\<And>k v. P (UpdateIssueField k [(''assignee'', v)])"
      "\<And>k v. P (UpdateIssueField k [(''resolution'', v)])"
      "\<And>k s. P (SetIssueStatus k s)"
  shows "issues P (create_and_link_issue J self bug event)"
  unfolding create_and_link_issue_def Let_def
  by (auto intro!: issues_update_issue simp: P)

lemma issues_update_path:
  assumes P: "\<And>k c. P (IssueAddComment k c)"
      "\<And>q. P (UserFindByUserString q)"
      "\<And>k v. P (UpdateIssueField k [(''assignee'', v)])"
      "\<And>k v. P (UpdateIssueField k [(''resolution'', v)])"
      "\<And>k s. P (SetIssueStatus k s)"
  shows "issues P (bind (add_comments self k cs)
           (\<lambda>rs. bind (update_issue J self bug event k False) (\<lambda>_. ok (res rs))))"
  by (auto intro!: issues_update_issue issues_add_comments simp: P)

lemma update_path_calls:
  assumes linked: "extract_from_see_also J bug = Some key" "key \<noteq> []"
    and P: "\<And>k c. P (IssueAddComment k c)"
      "\<And>q. P (UserFindByUserString q)"
      "\<And>k v. P (UpdateIssueField k [(''assignee'', v)])"
      "\<And>k v. P (UpdateIssueField k [(''resolution'', v)])"
      "\<And>k s. P (SetIssueStatus k s)"
  shows "\<exists>ext. snd (bug_create_or_update J self bug event tr) =
           tr @ UpdateIssueField (JStr key) (jira_fields J self bug) # ext \<and> list_all P ext"
  unfolding bug_create_or_update_def Let_def
  apply (simp only: linked falsy_key_def option.case if_False of_opt_def)
  apply (rule bind_remote_calls)
  apply (rule issues_update_path)
  apply (rule P)+
  done

lemma issues_bug_create_or_update:
  assumes P: "\<And>i. P (GetComments i)" "\<And>d. P (CreateIssue (create_fields J self bug d))"
      "\<And>i. P (GetBug i)" "\<And>i u. P (UpdateBug i u)" "\<And>k. P (DeleteIssue k)"
      "\<And>k u t. P (CreateOrUpdateIssueRemoteLinks k u t)"
      "\<And>q. P (UserFindByUserString q)"
      "\<And>k v. P (UpdateIssueField k [(''assignee'', v)])"
      "\<And>k v. P (UpdateIssueField k [(''resolution'', v)])"
      "\<And>k s. P (SetIssueStatus k s)"
      "\<And>k c. P (IssueAddComment k c)"
      "\<And>k. P (UpdateIssueField k (jira_fields J self bug))"
  shows "issues P (bug_create_or_update J self bug event)"
  unfolding bug_create_or_update_def Let_def
  by (auto intro!: issues_update_issue issues_add_comments issues_create_and_link_issue simp: P)

lemma issues_comment_create_or_noop:
  assumes "\<And>k c. P (IssueAddComment k c)"
  shows "issues P (comment_create_or_noop J self bug event)"
  unfolding comment_create_or_noop_def Let_def
  by (auto simp: assms)

lemma add_comments_success:
  assumes "length rs = length cs"
    and "\<forall>i<length cs. issue_add_comment (jira_client self) k (cs ! i)
                            (tr @ map (IssueAddComment k) (take i cs)) = Inr (rs ! i)"
  shows "add_comments self k cs tr = (Inr rs, tr @ map (IssueAddComment k) cs)"
  using assms
proof (induction cs arbitrary: rs tr)
  case Nil
  then show ?case by simp
next
  case (Cons c cs)
  then obtain r rs' where rs: "rs = r # rs'" "length rs' = length cs"
    by (cases rs) auto
  from Cons.prems(2) have first: "issue_add_comment (jira_client self) k c tr = Inr r"
    using rs by (auto dest: spec [of _ 0])
  have rest: "\<forall>i<length cs. issue_add_comment (jira_client self) k (cs ! i)
                 ((tr @ [IssueAddComment k c]) @ map (IssueAddComment k) (take i cs)) = Inr (rs' ! i)"
  proof (intro allI impI)
    fix i assume "i < length cs"
    with Cons.prems(2) [rule_format, of "Suc i"] rs
    show "issue_add_comment (jira_client self) k (cs ! i)
            ((tr @ [IssueAddComment k c]) @ map (IssueAddComment k) (take i cs)) = Inr (rs' ! i)"
      by simp
  qed
  from Cons.IH [OF rs(2) rest] first rs show ?case
    by (simp add: bind_def remote_def)
qed

lemma add_comments_calls:
  "\<exists>n. snd (add_comments self k cs tr) = tr @ map (IssueAddComment k) (take n cs) \<and>
       (\<forall>rs. fst (add_comments self k cs tr) = Inr rs \<longrightarrow> n = length cs)"
proof (induction cs arbitrary: tr)
  case Nil
  then show ?case by simp
next
  case (Cons c cs)
  show ?case
  proof (cases "issue_add_comment (jira_client self) k c tr")
    case (Inl e)
    then have "snd (add_comments self k (c # cs) tr) = tr @ map (IssueAddComment k) (take 1 (c # cs))"
      and "fst (add_comments self k (c # cs) tr) = Inl e"
      by simp_all
    then show ?thesis by (metis Inl_Inr_False)
  next
    case (Inr r)
    from Cons.IH [of "tr @ [IssueAddComment k c]"] obtain n where
      n: "snd (add_comments self k cs (tr @ [IssueAddComment k c])) =
            (tr @ [IssueAddComment k c]) @ map (IssueAddComment k) (take n cs)"
        "\<And>rs. fst (add_comments self k cs (tr @ [IssueAddComment k c])) = Inr rs \<Longrightarrow> n = length cs"
      by blast
    have "snd (add_comments self k (c # cs) tr) =
            tr @ map (IssueAddComment k) (take (Suc n) (c # cs))"
      using Inr n(1) by (auto simp: bind_def remote_def split: prod.splits sum.splits)
    moreover have "\<forall>rs. fst (add_comments self k (c # cs) tr) = Inr rs \<longrightarrow> Suc n = length (c # cs)"
      using Inr n(2) by (auto simp: bind_def remote_def split: prod.splits sum.splits)
    ultimately show ?thesis by blast
  qed
qed

section \<open>The create response\<close>

lemma dict_entry_truthy:
  "k \<in> fst ` set d \<and> truthy (dict_get d k) \<longleftrightarrow> (\<exists>v. map_of d k = Some v \<and> truthy v)"
  by (auto simp: dict_get_def dom_map_of_conv_image_fst [symmetric] split: option.splits)

lemma has_errors_iff:
  "has_errors d \<longleftrightarrow>
     (\<exists>v. map_of d ''errors'' = Some v \<and> truthy v) \<or> (\<exists>v. map_of d ''errorMessages'' = Some v \<and> truthy v)"
proof -
  have "has_errors d \<longleftrightarrow>
          (''errors'' \<in> fst ` set d \<and> truthy (dict_get d ''errors'')) \<or>
          (''errorMessages'' \<in> fst ` set d \<and> truthy (dict_get d ''errorMessages''))"
    unfolding has_errors_def list_ex_iff by force
  then show ?thesis
    by (simp only: dict_entry_truthy)
qed

lemma key_in_response_list: "key_in_response (JList (JDict d # rest)) = key_in_response (JDict d)"
  by (simp add: key_in_response_def)

lemma key_in_response_errors:
  assumes "response = JDict d \<or> (\<exists>rest. response = JList (JDict d # rest))"
    and "has_errors d"
  shows "key_in_response response = Inl ActionError"
  using assms by (auto simp: key_in_response_def)

lemma key_in_response_clean:
  assumes "response = JDict d \<or> (\<exists>rest. response = JList (JDict d # rest))"
    and "\<not> has_errors d"
  shows "key_in_response response = Inr (dict_get d ''key'')"
  using assms by (auto simp: key_in_response_def)

section \<open>The update path and the hook\<close>

lemma update_path_result:
  assumes linked: "extract_from_see_also J bug = Some key" "key \<noteq> []"
    and updated: "update_issue_field (jira_client self) (JStr key) (jira_fields J self bug) tr = Inr r"
    and len: "length rs = length (jira_comments_for_update J self bug event)"
    and posted: "\<forall>i<length (jira_comments_for_update J self bug event).
                   issue_add_comment (jira_client self) (JStr key)
                     (jira_comments_for_update J self bug event ! i)
                     (tr @ UpdateIssueField (JStr key) (jira_fields J self bug)
                         # map (IssueAddComment (JStr key))
                             (take i (jira_comments_for_update J self bug event)))
                   = Inr (rs ! i)"
  shows "bug_create_or_update J self bug event tr =
           (case update_issue J self bug event (JStr key) False
                   (tr @ UpdateIssueField (JStr key) (jira_fields J self bug)
                       # map (IssueAddComment (JStr key)) (jira_comments_for_update J self bug event)) of
              (Inl e, tr') \<Rightarrow> (Inl e, tr')
            | (Inr _, tr') \<Rightarrow> (Inr (True, [(''jira_responses'', JList [r, JList rs])]), tr'))"
proof -
  let ?cs = "jira_comments_for_update J self bug event"
  let ?U = "UpdateIssueField (JStr key) (jira_fields J self bug)"
  from posted have "\<forall>i<length ?cs. issue_add_comment (jira_client self) (JStr key) (?cs ! i)
                      ((tr @ [?U]) @ map (IssueAddComment (JStr key)) (take i ?cs)) = Inr (rs ! i)"
    by simp
  from add_comments_success [OF len this]
  have "add_comments self (JStr key) ?cs (tr @ [?U]) =
          (Inr rs, tr @ ?U # map (IssueAddComment (JStr key)) ?cs)"
    by simp
  with linked updated show ?thesis
    by (simp add: bug_create_or_update_def falsy_key_def of_opt_def Let_def bind_def remote_def
        split: prod.splits sum.splits)
qed

lemma comments_posted_append: "comments_posted (xs @ ys) = comments_posted xs @ comments_posted ys"
  by (induction xs rule: comments_posted.induct) simp_all

lemma comments_posted_map: "comments_posted (map (IssueAddComment k) cs) = cs"
  by (induction cs) simp_all

lemma comments_posted_none: "list_all (\<lambda>c. \<not> is_add_comment c) xs \<Longrightarrow> comments_posted xs = []"
  by (induction xs rule: comments_posted.induct) simp_all

lemma update_path_comments:
  assumes linked: "extract_from_see_also J bug = Some key" "key \<noteq> []"
  shows "\<exists>n ext. snd (bug_create_or_update J self bug event tr) = tr @ ext \<and>
           comments_posted ext = take n (jira_comments_for_update J self bug event) \<and>
           (\<forall>res. fst (bug_create_or_update J self bug event tr) = Inr res \<longrightarrow>
                  n = length (jira_comments_for_update J self bug event))"
proof -
  let ?cs = "jira_comments_for_update J self bug event"
  let ?U = "UpdateIssueField (JStr key) (jira_fields J self bug)"
  let ?run = "bug_create_or_update J self bug event tr"
  show ?thesis
  proof (cases "update_issue_field (jira_client self) (JStr key) (jira_fields J self bug) tr")
    case (Inl e)
    with linked have "?run = (Inl e, tr @ [?U])"
      by (simp add: bug_create_or_update_def falsy_key_def of_opt_def)
    then have "snd ?run = tr @ [?U] \<and> comments_posted [?U] = take 0 ?cs \<and>
               (\<forall>res. fst ?run = Inr res \<longrightarrow> 0 = length ?cs)"
      by simp
    then show ?thesis by blast
  next
    case (Inr r)
    obtain n where n: "snd (add_comments self (JStr key) ?cs (tr @ [?U])) =
                         (tr @ [?U]) @ map (IssueAddComment (JStr key)) (take n ?cs)"
      and full: "\<And>rs. fst (add_comments self (JStr key) ?cs (tr @ [?U])) = Inr rs \<Longrightarrow> n = length ?cs"
      using add_comments_calls [of self "JStr key" ?cs "tr @ [?U]"] by blast
    obtain a tr2 where added: "add_comments self (JStr key) ?cs (tr @ [?U]) = (a, tr2)"
      by (cases "add_comments self (JStr key) ?cs (tr @ [?U])")
    with n have tr2: "tr2 = tr @ ?U # map (IssueAddComment (JStr key)) (take n ?cs)"
      by simp
    show ?thesis
    proof (cases a)
      case (Inl e)
      with linked Inr added have "?run = (Inl e, tr2)"
        by (simp add: bug_create_or_update_def falsy_key_def of_opt_def Let_def bind_def remote_def)
      with tr2 have "snd ?run = tr @ (?U # map (IssueAddComment (JStr key)) (take n ?cs)) \<and>
                     comments_posted (?U # map (IssueAddComment (JStr key)) (take n ?cs)) = take n ?cs \<and>
                     (\<forall>res. fst ?run = Inr res \<longrightarrow> n = length ?cs)"
        by (simp add: comments_posted_map)
      then show ?thesis by blast
    next
      case (Inr rs)
      with full added have nlen: "n = length ?cs" by simp
      obtain b tr3 where hook: "update_issue J self bug event (JStr key) False tr2 = (b, tr3)"
        by (cases "update_issue J self bug event (JStr key) False tr2")
      have "issues (\<lambda>c. \<not> is_add_comment c) (update_issue J self bug event (JStr key) False)"
        by (rule issues_update_issue) simp_all
      from issuesD [OF this, of tr2] hook obtain ext where
        ext: "tr3 = tr2 @ ext" "list_all (\<lambda>c. \<not> is_add_comment c) ext"
        by auto
      from linked \<open>update_issue_field (jira_client self) (JStr key) (jira_fields J self bug) tr = Inr r\<close>
        added Inr hook
      have "snd ?run = tr3"
        by (cases b)
          (simp_all add: bug_create_or_update_def falsy_key_def of_opt_def Let_def bind_def remote_def)
      with tr2 ext nlen
      have "snd ?run = tr @ (?U # map (IssueAddComment (JStr key)) ?cs @ ext) \<and>
            comments_posted (?U # map (IssueAddComment (JStr key)) ?cs @ ext) = take n ?cs \<and>
            (\<forall>res. fst ?run = Inr res \<longrightarrow> n = length ?cs)"
        by (simp add: comments_posted_append comments_posted_map comments_posted_none)
      then show ?thesis by blast
    qed
  qed
qed

lemma description_field:
  "map_of (create_fields J self bug d) ''description'' = Some (JStr d)"
  by (simp add: create_fields_def jira_fields_def Let_def)

lemma jira_fields_without_labels:
  "\<not> sync_whiteboard_labels self \<Longrightarrow> jira_fields J self bug = [(''summary'', of_opt (summary bug))]"
  by (simp add: jira_fields_def)

lemma jira_fields_with_labels:
  "sync_whiteboard_labels self \<Longrightarrow>
   jira_fields J self bug =
     [(''summary'', of_opt (summary bug)), (''labels'', JList (map JStr (get_jira_labels J bug)))]"
  by (simp add: jira_fields_def)

lemma issues_executor_call:
  assumes P: "\<And>i. P (GetComments i)" "\<And>d. P (CreateIssue (create_fields J self bug d))"
      "\<And>i. P (GetBug i)" "\<And>i u. P (UpdateBug i u)" "\<And>k. P (DeleteIssue k)"
      "\<And>k u t. P (CreateOrUpdateIssueRemoteLinks k u t)"
      "\<And>q. P (UserFindByUserString q)"
      "\<And>k v. P (UpdateIssueField k [(''assignee'', v)])"
      "\<And>k v. P (UpdateIssueField k [(''resolution'', v)])"
      "\<And>k s. P (SetIssueStatus k s)"
      "\<And>k c. P (IssueAddComment k c)"
      "\<And>k. P (UpdateIssueField k (jira_fields J self bug))"
  shows "issues P (executor_call J self bug event)"
  unfolding executor_call_def
  by (auto intro!: issues_bug_create_or_update issues_comment_create_or_noop simp: P)

lemma no_labels_sent:
  assumes "\<not> sync_whiteboard_labels self"
  shows "issues (\<lambda>c. \<not> has_labels c) (executor_call J self bug event)"
  by (rule issues_executor_call)
    (simp_all add: has_labels_def create_fields_def jira_fields_without_labels [OF assms])

lemma assignee_one_account:
  assumes "is_new \<or> ''assigned_to'' \<in> set changed"
    and "assigned_to bug \<noteq> Some ''nobody@mozilla.org''"
    and "user_find_by_user_string (jira_client self) (assigned_to bug) tr = Inr [JDict d]"
    and "map_of d ''accountId'' = Some a"
  shows "update_assignee self bug changed k is_new tr =
             (case update_issue_field (jira_client self) k [(''assignee'', JDict [(''accountId'', a)])]
                     (tr @ [UserFindByUserString (assigned_to bug)]) of
                Inr _ \<Rightarrow>
                  (Inr (), tr @ [UserFindByUserString (assigned_to bug),
                                 UpdateIssueField k [(''assignee'', JDict [(''accountId'', a)])]])
              | Inl e \<Rightarrow>
                  if e = IOError
                  then clear_assignee self k is_new
                         (tr @ [UserFindByUserString (assigned_to bug),
                                UpdateIssueField k [(''assignee'', JDict [(''accountId'', a)])]])
                  else (Inl e, tr @ [UserFindByUserString (assigned_to bug),
                                     UpdateIssueField k [(''assignee'', JDict [(''accountId'', a)])]]))"
  using assms
  by (auto simp: update_assignee_def except_IOError_def subscript_def split: sum.splits)

lemma assignee_no_single_account:
  assumes "is_new \<or> ''assigned_to'' \<in> set changed"
    and "assigned_to bug \<noteq> Some ''nobody@mozilla.org''"
    and "user_find_by_user_string (jira_client self) (assigned_to bug) tr = Inr users"
    and "length users \<noteq> 1"
  shows "update_assignee self bug changed k is_new tr =
           clear_assignee self k is_new (tr @ [UserFindByUserString (assigned_to bug)])"
  using assms by (auto simp: update_assignee_def)

lemma status_rule_unmapped:
  assumes "map_get rmap (resolution bug) = None \<or> map_get rmap (resolution bug) = Some []"
    and "map_get smap (py_or (resolution bug) (status bug)) = None \<or>
         map_get smap (py_or (resolution bug) (status bug)) = Some []"
  shows "update_status smap rmap self bug changed k is_new tr = (Inr (), tr)"
  using assms by (auto simp: update_status_def Let_def)

lemma status_rule_status_only:
  assumes "is_new \<or> ''status'' \<in> set changed \<or> ''resolution'' \<in> set changed"
    and "map_get rmap (resolution bug) = None \<or> map_get rmap (resolution bug) = Some []"
    and "map_get smap (py_or (resolution bug) (status bug)) = Some js" "js \<noteq> []"
  shows "update_status smap rmap self bug changed k is_new tr =
           (map_sum id (\<lambda>_. ()) (set_issue_status (jira_client self) k js tr),
            tr @ [SetIssueStatus k js])"
  using assms by (auto simp: update_status_def Let_def split: sum.splits)

lemma status_rule_resolution:
  assumes "is_new \<or> ''status'' \<in> set changed \<or> ''resolution'' \<in> set changed"
    and "map_get rmap (resolution bug) = Some jr" "jr \<noteq> []"
  shows "update_status smap rmap self bug changed k is_new tr =
           (case update_issue_field (jira_client self) k [(''resolution'', JStr jr)] tr of
              Inl e \<Rightarrow> (Inl e, tr @ [UpdateIssueField k [(''resolution'', JStr jr)]])
            | Inr _ \<Rightarrow>
                (case map_get smap (py_or (resolution bug) (status bug)) of
                   None \<Rightarrow> (Inr (), tr @ [UpdateIssueField k [(''resolution'', JStr jr)]])
                 | Some js \<Rightarrow>
                     if js \<noteq> [] then
                       (map_sum id (\<lambda>_. ())
                          (set_issue_status (jira_client self) k js
                             (tr @ [UpdateIssueField k [(''resolution'', JStr jr)]])),
                        tr @ [UpdateIssueField k [(''resolution'', JStr jr)], SetIssueStatus k js])
                     else (Inr (), tr @ [UpdateIssueField k [(''resolution'', JStr jr)]])))"
  using assms by (auto simp: update_status_def Let_def bind_assoc split: sum.splits option.splits)

lemma effective_status_key:
  "py_or (resolution bug) (status bug) =
     (if resolution bug = None \<or> resolution bug = Some [] then status bug else resolution bug)"
  by (auto simp: py_or_def falsy_key_def split: option.splits)

lemma update_issue_reconciler:
  "cls self = AssigneeAndStatusExecutor smap rmap \<Longrightarrow>
   update_issue J self bug event k is_new =
     bind (update_assignee self bug (changed_of J event) k is_new)
       (\<lambda>_. update_status smap rmap self bug (changed_of J event) k is_new)"
  by (simp add: update_issue_def Let_def)

lemma status_rule_calls:
  "\<exists>ext. snd (update_status smap rmap self bug changed k is_new tr) = tr @ ext \<and>
         list_all (\<lambda>c. \<not> assignee_call c) ext"
  by (rule issuesD [OF issues_update_status]) simp_all

lemma sentinel_clears:
  assumes cls: "cls self = AssigneeAndStatusExecutor smap rmap"
    and sentinel: "assigned_to bug = Some ''nobody@mozilla.org''"
    and run: "''assigned_to'' \<in> set (changed_of J event)"
  shows "update_issue J self bug event k False tr =
           (case update_issue_field (jira_client self) k [(''assignee'', JNull)] tr of
              Inl e \<Rightarrow> (Inl e, tr @ [UpdateIssueField k [(''assignee'', JNull)]])
            | Inr _ \<Rightarrow> update_status smap rmap self bug (changed_of J event) k False
                        (tr @ [UpdateIssueField k [(''assignee'', JNull)]]))"
  using sentinel run
  by (simp add: update_issue_reconciler [OF cls] update_assignee_def clear_assignee_def bind_assoc
      split: sum.splits)

lemma sentinel_clears_calls:
  assumes cls: "cls self = AssigneeAndStatusExecutor smap rmap"
    and sentinel: "assigned_to bug = Some ''nobody@mozilla.org''"
    and run: "''assigned_to'' \<in> set (changed_of J event)"
  shows "\<exists>ext. snd (update_issue J self bug event k False tr) =
                 tr @ UpdateIssueField k [(''assignee'', JNull)] # ext \<and>
               list_all (\<lambda>c. \<not> assignee_call c) ext"
proof (cases "update_issue_field (jira_client self) k [(''assignee'', JNull)] tr")
  case (Inl e)
  with sentinel_clears [OF cls sentinel run, of k tr] show ?thesis by simp
next
  case (Inr r)
  from status_rule_calls [of smap rmap self bug "changed_of J event" k False
      "tr @ [UpdateIssueField k [(''assignee'', JNull)]]"]
    sentinel_clears [OF cls sentinel run, of k tr] Inr
  show ?thesis by auto
qed

lemma assignee_rule_skipped:
  assumes cls: "cls self = AssigneeAndStatusExecutor smap rmap"
    and skip: "(is_new \<and> assigned_to bug = Some ''nobody@mozilla.org'') \<or>
               (\<not> is_new \<and> ''assigned_to'' \<notin> set (changed_of J event))"
  shows "update_issue J self bug event k is_new tr =
           update_status smap rmap self bug (changed_of J event) k is_new tr"
  using skip
  by (auto simp: update_issue_reconciler [OF cls] update_assignee_def clear_assignee_def)

lemma assignee_rule_skipped_calls:
  assumes cls: "cls self = AssigneeAndStatusExecutor smap rmap"
    and skip: "(is_new \<and> assigned_to bug = Some ''nobody@mozilla.org'') \<or>
               (\<not> is_new \<and> ''assigned_to'' \<notin> set (changed_of J event))"
  shows "\<exists>ext. snd (update_issue J self bug event k is_new tr) = tr @ ext \<and>
               list_all (\<lambda>c. \<not> assignee_call c) ext"
  using status_rule_calls [of smap rmap self bug "changed_of J event" k is_new tr]
    assignee_rule_skipped [OF cls skip, of k tr]
  by simp

lemma one_account_set:
  assumes cls: "cls self = AssigneeAndStatusExecutor smap rmap"
    and run: "is_new \<or> ''assigned_to'' \<in> set (changed_of J event)"
    and named: "assigned_to bug \<noteq> Some ''nobody@mozilla.org''"
    and found: "user_find_by_user_string (jira_client self) (assigned_to bug) tr = Inr [JDict d]"
    and account: "map_of d ''accountId'' = Some a"
  shows "update_issue J self bug event k is_new tr =
           (case update_issue_field (jira_client self) k [(''assignee'', JDict [(''accountId'', a)])]
                   (tr @ [UserFindByUserString (assigned_to bug)]) of
              Inr _ \<Rightarrow>
                update_status smap rmap self bug (changed_of J event) k is_new
                  (tr @ [UserFindByUserString (assigned_to bug),
                         UpdateIssueField k [(''assignee'', JDict [(''accountId'', a)])]])
            | Inl e \<Rightarrow>
                if e = IOError
                then bind (clear_assignee self k is_new)
                       (\<lambda>_. update_status smap rmap self bug (changed_of J event) k is_new)
                       (tr @ [UserFindByUserString (assigned_to bug),
                              UpdateIssueField k [(''assignee'', JDict [(''accountId'', a)])]])
                else (Inl e, tr @ [UserFindByUserString (assigned_to bug),
                                   UpdateIssueField k [(''assignee'', JDict [(''accountId'', a)])]]))"
proof -
  have "update_assignee self bug (changed_of J event) k is_new tr =
          (case update_issue_field (jira_client self) k [(''assignee'', JDict [(''accountId'', a)])]
                  (tr @ [UserFindByUserString (assigned_to bug)]) of
             Inr _ \<Rightarrow>
               (Inr (), tr @ [UserFindByUserString (assigned_to bug),
                              UpdateIssueField k [(''assignee'', JDict [(''accountId'', a)])]])
           | Inl e \<Rightarrow>
               if e = IOError
               then clear_assignee self k is_new
                      (tr @ [UserFindByUserString (assigned_to bug),
                             UpdateIssueField k [(''assignee'', JDict [(''accountId'', a)])]])
               else (Inl e, tr @ [UserFindByUserString (assigned_to bug),
                                  UpdateIssueField k [(''assignee'', JDict [(''accountId'', a)])]]))"
    by (rule assignee_one_account [OF run named found account])
  then show ?thesis
    by (simp add: update_issue_reconciler [OF cls] bind_def split: sum.splits)
qed

lemma no_single_account_clears:
  assumes cls: "cls self = AssigneeAndStatusExecutor smap rmap"
    and run: "is_new \<or> ''assigned_to'' \<in> set (changed_of J event)"
    and named: "assigned_to bug \<noteq> Some ''nobody@mozilla.org''"
    and found: "user_find_by_user_string (jira_client self) (assigned_to bug) tr = Inr users"
    and several: "length users \<noteq> 1"
  shows "update_issue J self bug event k is_new tr =
           bind (clear_assignee self k is_new)
             (\<lambda>_. update_status smap rmap self bug (changed_of J event) k is_new)
             (tr @ [UserFindByUserString (assigned_to bug)])"
  using assignee_no_single_account [OF run named found several, of k]
  by (simp add: update_issue_reconciler [OF cls] bind_def)

lemma bind_then_ok:
  "bind m (\<lambda>_. ok r) tr = (case m tr of (Inl e, tr') \<Rightarrow> (Inl e, tr') | (Inr _, tr') \<Rightarrow> (Inr r, tr'))"
  by (simp add: bind_def split: prod.splits sum.splits)

lemma create_path_result:
  assumes comments: "get_comments (bugzilla_client self) (bug_id bug) tr = Inr (c # cs)"
    and created: "create_issue (jira_client self)
                    (create_fields J self bug (take JIRA_DESCRIPTION_CHAR_LIMIT (comment_text c)))
                    (tr @ [GetComments (bug_id bug)]) = Inr response"
    and key: "key_in_response response = Inr K"
    and refetched: "get_bug (bugzilla_client self) (bug_id bug)
                      (tr @ [GetComments (bug_id bug),
                             CreateIssue (create_fields J self bug
                                            (take JIRA_DESCRIPTION_CHAR_LIMIT (comment_text c)))])
                    = Inr bug'"
    and no_race: "extract_from_see_also J bug' = None \<or> K = of_opt (extract_from_see_also J bug')"
    and linked: "update_bug (bugzilla_client self) (bug_id bug')
                   (jira_base_url J @ ''browse/'' @ py_str J K)
                   (tr @ [GetComments (bug_id bug),
                          CreateIssue (create_fields J self bug
                                         (take JIRA_DESCRIPTION_CHAR_LIMIT (comment_text c))),
                          GetBug (bug_id bug)]) = Inr bugzilla_response"
    and remote_link: "create_or_update_issue_remote_links (jira_client self) K
                 (bugzilla_base_url J @ ''/show_bug.cgi?id='' @ show_int (bug_id bug'))
                 (bugzilla_base_url J @ ''/show_bug.cgi?id='' @ show_int (bug_id bug'))
                 (tr @ [GetComments (bug_id bug),
                        CreateIssue (create_fields J self bug
                                       (take JIRA_DESCRIPTION_CHAR_LIMIT (comment_text c))),
                        GetBug (bug_id bug),
                        UpdateBug (bug_id bug') (jira_base_url J @ ''browse/'' @ py_str J K)])
               = Inr jira_response"
  shows "create_and_link_issue J self bug event tr =
           (case update_issue J self bug' event K True
                   (tr @ [GetComments (bug_id bug),
                          CreateIssue (create_fields J self bug
                                         (take JIRA_DESCRIPTION_CHAR_LIMIT (comment_text c))),
                          GetBug (bug_id bug),
                          UpdateBug (bug_id bug') (jira_base_url J @ ''browse/'' @ py_str J K),
                          CreateOrUpdateIssueRemoteLinks K
                            (bugzilla_base_url J @ ''/show_bug.cgi?id='' @ show_int (bug_id bug'))
                            (bugzilla_base_url J @ ''/show_bug.cgi?id='' @ show_int (bug_id bug'))]) of
              (Inl e, tr') \<Rightarrow> (Inl e, tr')
            | (Inr _, tr') \<Rightarrow>
                (Inr (True, [(''bugzilla_response'', bugzilla_response),
                             (''jira_response'', jira_response)]), tr'))"
  using assms
  by (auto simp: create_and_link_issue_def Let_def bind_then_ok)

lemma status_rule_not_run:
  "\<not> (is_new \<or> ''status'' \<in> set changed \<or> ''resolution'' \<in> set changed) \<Longrightarrow>
   update_status smap rmap self bug changed k is_new tr = (Inr (), tr)"
  by (simp add: update_status_def)

lemma bind_idle:
  fixes m :: "unit action"
  assumes "\<And>tr'. g tr' = (Inr (), tr')"
  shows "bind m (\<lambda>_. g) tr = m tr"
  using assms by (cases "m tr") (auto simp: bind_def split: sum.splits)

lemma hook_status_idle:
  assumes cls: "cls self = AssigneeAndStatusExecutor smap rmap"
    and idle: "\<not> (is_new \<or> ''status'' \<in> set (changed_of J event) \<or>
                    ''resolution'' \<in> set (changed_of J event)) \<or>
               (map_get rmap (resolution bug) = None \<or> map_get rmap (resolution bug) = Some []) \<and>
               (map_get smap (py_or (resolution bug) (status bug)) = None \<or>
                map_get smap (py_or (resolution bug) (status bug)) = Some [])"
  shows "update_issue J self bug event k is_new tr =
           update_assignee self bug (changed_of J event) k is_new tr"
proof -
  have "update_status smap rmap self bug (changed_of J event) k is_new tr' = (Inr (), tr')" for tr'
    using idle status_rule_not_run [of is_new "changed_of J event" smap rmap self bug k tr']
      status_rule_unmapped [of rmap bug smap self "changed_of J event" k is_new tr']
    by blast
  then show ?thesis
    unfolding update_issue_reconciler [OF cls] by (rule bind_idle)
qed

lemma hook_status_resolution:
  assumes cls: "cls self = AssigneeAndStatusExecutor smap rmap"
    and assignee: "update_assignee self bug (changed_of J event) k is_new tr = (Inr (), tr1)"
    and run: "is_new \<or> ''status'' \<in> set (changed_of J event) \<or>
              ''resolution'' \<in> set (changed_of J event)"
    and mapped: "map_get rmap (resolution bug) = Some jr" "jr \<noteq> []"
  shows "update_issue J self bug event k is_new tr =
           (case update_issue_field (jira_client self) k [(''resolution'', JStr jr)] tr1 of
              Inl e \<Rightarrow> (Inl e, tr1 @ [UpdateIssueField k [(''resolution'', JStr jr)]])
            | Inr _ \<Rightarrow>
                (case map_get smap (py_or (resolution bug) (status bug)) of
                   None \<Rightarrow> (Inr (), tr1 @ [UpdateIssueField k [(''resolution'', JStr jr)]])
                 | Some js \<Rightarrow>
                     if js \<noteq> [] then
                       (map_sum id (\<lambda>_. ())
                          (set_issue_status (jira_client self) k js
                             (tr1 @ [UpdateIssueField k [(''resolution'', JStr jr)]])),
                        tr1 @ [UpdateIssueField k [(''resolution'', JStr jr)], SetIssueStatus k js])
                     else (Inr (), tr1 @ [UpdateIssueField k [(''resolution'', JStr jr)]])))"
  using status_rule_resolution [OF run mapped, of smap self k tr1] assignee
  by (simp add: update_issue_reconciler [OF cls] bind_def)

lemma hook_status_only:
  assumes cls: "cls self = AssigneeAndStatusExecutor smap rmap"
    and assignee: "update_assignee self bug (changed_of J event) k is_new tr = (Inr (), tr1)"
    and run: "is_new \<or> ''status'' \<in> set (changed_of J event) \<or>
              ''resolution'' \<in> set (changed_of J event)"
    and unmapped: "map_get rmap (resolution bug) = None \<or> map_get rmap (resolution bug) = Some []"
    and mapped: "map_get smap (py_or (resolution bug) (status bug)) = Some js" "js \<noteq> []"
  shows "update_issue J self bug event k is_new tr =
           (map_sum id (\<lambda>_. ()) (set_issue_status (jira_client self) k js tr1),
            tr1 @ [SetIssueStatus k js])"
  using status_rule_status_only [OF run unmapped mapped, of self k tr1] assignee
  by (simp add: update_issue_reconciler [OF cls] bind_def)

lemma update_event_handled:
  assumes cls: "cls self = AssigneeAndStatusExecutor smap rmap"
    and unmapped: "(map_get rmap (resolution bug) = None \<or> map_get rmap (resolution bug) = Some []) \<and>
               (map_get smap (py_or (resolution bug) (status bug)) = None \<or>
                map_get smap (py_or (resolution bug) (status bug)) = Some [])"
    and linked: "extract_from_see_also J bug = Some key" "key \<noteq> []"
    and updated: "update_issue_field (jira_client self) (JStr key) (jira_fields J self bug) tr = Inr r"
    and len: "length rs = length (jira_comments_for_update J self bug event)"
    and posted: "\<forall>i<length (jira_comments_for_update J self bug event).
                   issue_add_comment (jira_client self) (JStr key)
                     (jira_comments_for_update J self bug event ! i)
                     (tr @ UpdateIssueField (JStr key) (jira_fields J self bug)
                         # map (IssueAddComment (JStr key))
                             (take i (jira_comments_for_update J self bug event)))
                   = Inr (rs ! i)"
  shows "bug_create_or_update J self bug event tr =
           (case update_assignee self bug (changed_of J event) (JStr key) False
                   (tr @ UpdateIssueField (JStr key) (jira_fields J self bug)
                       # map (IssueAddComment (JStr key)) (jira_comments_for_update J self bug event)) of
              (Inl e, tr') \<Rightarrow> (Inl e, tr')
            | (Inr _, tr') \<Rightarrow> (Inr (True, [(''jira_responses'', JList [r, JList rs])]), tr'))"
  using update_path_result [OF linked updated len posted]
    hook_status_idle [OF cls disjI2 [OF unmapped], of J event "JStr key" False]
  by simp

lemma create_event_handled:
  assumes cls: "cls self = AssigneeAndStatusExecutor smap rmap"
    and unmapped: "(map_get rmap (resolution bug') = None \<or> map_get rmap (resolution bug') = Some []) \<and>
               (map_get smap (py_or (resolution bug') (status bug')) = None \<or>
                map_get smap (py_or (resolution bug') (status bug')) = Some [])"
    and comments: "get_comments (bugzilla_client self) (bug_id new_bug) tr = Inr (c # cs)"
    and created: "create_issue (jira_client self)
                    (create_fields J self new_bug (take JIRA_DESCRIPTION_CHAR_LIMIT (comment_text c)))
                    (tr @ [GetComments (bug_id new_bug)]) = Inr response"
    and key: "key_in_response response = Inr K"
    and refetched: "get_bug (bugzilla_client self) (bug_id new_bug)
                      (tr @ [GetComments (bug_id new_bug),
                             CreateIssue (create_fields J self new_bug
                                            (take JIRA_DESCRIPTION_CHAR_LIMIT (comment_text c)))])
                    = Inr bug'"
    and no_race: "extract_from_see_also J bug' = None \<or> K = of_opt (extract_from_see_also J bug')"
    and linked: "update_bug (bugzilla_client self) (bug_id bug')
                   (jira_base_url J @ ''browse/'' @ py_str J K)
                   (tr @ [GetComments (bug_id new_bug),
                          CreateIssue (create_fields J self new_bug
                                         (take JIRA_DESCRIPTION_CHAR_LIMIT (comment_text c))),
                          GetBug (bug_id new_bug)]) = Inr bugzilla_response"
    and remote_link: "create_or_update_issue_remote_links (jira_client self) K
                 (bugzilla_base_url J @ ''/show_bug.cgi?id='' @ show_int (bug_id bug'))
                 (bugzilla_base_url J @ ''/show_bug.cgi?id='' @ show_int (bug_id bug'))
                 (tr @ [GetComments (bug_id new_bug),
                        CreateIssue (create_fields J self new_bug
                                       (take JIRA_DESCRIPTION_CHAR_LIMIT (comment_text c))),
                        GetBug (bug_id new_bug),
                        UpdateBug (bug_id bug') (jira_base_url J @ ''browse/'' @ py_str J K)])
               = Inr jira_response"
  shows "create_and_link_issue J self new_bug event tr =
           (case update_assignee self bug' (changed_of J event) K True
                   (tr @ [GetComments (bug_id new_bug),
                          CreateIssue (create_fields J self new_bug
                                         (take JIRA_DESCRIPTION_CHAR_LIMIT (comment_text c))),
                          GetBug (bug_id new_bug),
                          UpdateBug (bug_id bug') (jira_base_url J @ ''browse/'' @ py_str J K),
                          CreateOrUpdateIssueRemoteLinks K
                            (bugzilla_base_url J @ ''/show_bug.cgi?id='' @ show_int (bug_id bug'))
                            (bugzilla_base_url J @ ''/show_bug.cgi?id='' @ show_int (bug_id bug'))]) of
              (Inl e, tr') \<Rightarrow> (Inl e, tr')
            | (Inr _, tr') \<Rightarrow>
                (Inr (True, [(''bugzilla_response'', bugzilla_response),
                             (''jira_response'', jira_response)]), tr'))"
  using create_path_result [OF comments created key refetched no_race linked remote_link, of event]
    hook_status_idle [OF cls disjI2 [OF unmapped], of J event K True]
  by simp

lemma demo_fields:
  "create_fields demo_jbi demo_executor demo_bug (take JIRA_DESCRIPTION_CHAR_LIMIT ''Steps'') = demo_create_fields"
  by (simp add: demo_defs create_fields_def jira_fields_def JIRA_DESCRIPTION_CHAR_LIMIT_def
      demo_create_fields_def of_opt_def)

section \<open>Events that are ignored\<close>

text \<open>
  C10: for every event whose target is neither "comment" nor "bug", the call operation of
  the executor makes no remote call (the list of calls is returned as it was) and returns
  exactly \<open>(False, {})\<close>.
\<close>

theorem call_ignores_other_targets:
  "target event \<noteq> ''comment'' \<Longrightarrow> target event \<noteq> ''bug'' \<Longrightarrow>
   executor_call J self bug event tr = (Inr (False, []), tr)"
  by (simp add: executor_call_def)

theorem call_ignores_other_targets_witness:
  "target (demo_event\<lparr>target := ''attachment''\<rparr>) \<noteq> ''comment'' \<and>
   target (demo_event\<lparr>target := ''attachment''\<rparr>) \<noteq> ''bug'' \<and>
   executor_call demo_jbi demo_executor demo_bug (demo_event\<lparr>target := ''attachment''\<rparr>)
     [GetBug 42] = (Inr (False, []), [GetBug 42])"
  using call_ignores_other_targets
    [of "demo_event\<lparr>target := ''attachment''\<rparr>" demo_jbi demo_executor demo_bug "[GetBug 42]"]
  by (simp add: demo_defs)

text \<open>
  C4: a comment-target event on a bug with no extracted cross-link (the resolver returns
  \<open>None\<close>, or the empty string, which \<open>if not linked_issue_key\<close> treats alike), and
  likewise one on a linked bug that carries no comment payload, makes no remote call and
  returns exactly \<open>(False, {})\<close>.
\<close>

theorem comment_noop:
  "extract_from_see_also J bug = None \<or> extract_from_see_also J bug = Some [] \<or> comment bug = None \<Longrightarrow>
   comment_create_or_noop J self bug event tr = (Inr (False, []), tr)"
  by (auto simp: comment_create_or_noop_def falsy_key_def Let_def)

theorem comment_noop_witness:
  "extract_from_see_also demo_jbi demo_bug = None \<and>
   comment_create_or_noop demo_jbi demo_executor demo_bug (demo_event\<lparr>target := ''comment''\<rparr>) [] =
     (Inr (False, []), []) \<and>
   extract_from_see_also demo_jbi demo_linked_bug = Some ''JBI-1'' \<and> comment demo_linked_bug = None \<and>
   comment_create_or_noop demo_jbi demo_executor demo_linked_bug (demo_event\<lparr>target := ''comment''\<rparr>) [] =
     (Inr (False, []), [])"
  using comment_noop [of demo_jbi demo_bug demo_executor "demo_event\<lparr>target := ''comment''\<rparr>" "[]"]
    comment_noop [of demo_jbi demo_linked_bug demo_executor "demo_event\<lparr>target := ''comment''\<rparr>" "[]"]
  by (simp add: demo_defs)

section \<open>Creating and linking an issue\<close>

text \<open>
  C1: when the bug re-fetched after the create call carries a link \<open>K1\<close> that is not
  \<open>None\<close> and differs from the key \<open>K2\<close> of the issue just created, \<open>create_and_link_issue\<close>
  calls \<open>delete_issue\<close> on \<open>K2\<close> and makes no other call after the re-fetch: no \<open>update_bug\<close>
  (no link to \<open>K2\<close> is written) and no remote link. Its result is that of the delete call:
  handled, \<open>(True, {"jira_response": ...})\<close>, when the delete returns.
\<close>

theorem duplicate_race:
  assumes comments: "get_comments (bugzilla_client self) (bug_id bug) tr = Inr (c # cs)"
    and created: "create_issue (jira_client self)
                    (create_fields J self bug (take JIRA_DESCRIPTION_CHAR_LIMIT (comment_text c)))
                    (tr @ [GetComments (bug_id bug)]) = Inr response"
    and key: "key_in_response response = Inr K2"
    and refetched: "get_bug (bugzilla_client self) (bug_id bug)
                      (tr @ [GetComments (bug_id bug),
                             CreateIssue (create_fields J self bug
                                            (take JIRA_DESCRIPTION_CHAR_LIMIT (comment_text c)))])
                    = Inr bug'"
    and linked: "extract_from_see_also J bug' = Some K1"
    and differs: "K2 \<noteq> JStr K1"
  shows "create_and_link_issue J self bug event tr =
           (case delete_issue (jira_client self) K2
                   (tr @ [GetComments (bug_id bug),
                          CreateIssue (create_fields J self bug
                                         (take JIRA_DESCRIPTION_CHAR_LIMIT (comment_text c))),
                          GetBug (bug_id bug)]) of
              Inl e \<Rightarrow> Inl e
            | Inr jira_response_delete \<Rightarrow> Inr (True, [(''jira_response'', jira_response_delete)]),
            tr @ [GetComments (bug_id bug),
                  CreateIssue (create_fields J self bug
                                 (take JIRA_DESCRIPTION_CHAR_LIMIT (comment_text c))),
                  GetBug (bug_id bug),
                  DeleteIssue K2])"
  using assms
  by (simp add: create_and_link_issue_def of_opt_def Let_def split: sum.splits)

theorem duplicate_race_witness:
  "create_and_link_issue demo_jbi racing demo_bug demo_event [] =
     (Inr (True, [(''jira_response'', JNull)]),
      [GetComments 42, CreateIssue demo_create_fields, GetBug 42, DeleteIssue (JStr ''JBI-2'')])"
  using duplicate_race [where self = racing and bug = demo_bug and tr = "[]"
      and c = "\<lparr>comment_text = ''Steps''\<rparr>" and cs = "[]" and J = demo_jbi and event = demo_event
      and response = "JDict [(''key'', JStr ''JBI-2'')]" and ?K2.0 = "JStr ''JBI-2''"
      and bug' = demo_linked_bug and ?K1.0 = "''JBI-1''"]
    demo_fields
  by (simp add: demo_defs racing_def create_fields_def jira_fields_def key_in_response_def
      has_errors_def dict_get_def)

text \<open>
  C3: a create response that is a list stands for its first element, whatever the elements
  after it hold. When the response so normalised is a dictionary with a truthy \<open>errors\<close>
  or \<open>errorMessages\<close> entry, \<open>create_and_link_issue\<close> raises \<open>ActionError\<close> and the create
  call is the last call of the event: no re-fetch, no bug update, no remote link, no hook.
  When that dictionary has no such entry, the key is its \<open>key\<close> entry and the next call is
  the re-fetch of the bug.
\<close>

theorem create_response_errors:
  assumes comments: "get_comments (bugzilla_client self) (bug_id bug) tr = Inr (c # cs)"
    and created: "create_issue (jira_client self)
                    (create_fields J self bug (take JIRA_DESCRIPTION_CHAR_LIMIT (comment_text c)))
                    (tr @ [GetComments (bug_id bug)]) = Inr response"
    and shape: "response = JDict d \<or> (\<exists>rest. response = JList (JDict d # rest))"
  shows "((\<exists>v. map_of d ''errors'' = Some v \<and> truthy v) \<or>
          (\<exists>v. map_of d ''errorMessages'' = Some v \<and> truthy v) \<longrightarrow>
            create_and_link_issue J self bug event tr =
              (Inl ActionError,
               tr @ [GetComments (bug_id bug),
                     CreateIssue (create_fields J self bug
                                    (take JIRA_DESCRIPTION_CHAR_LIMIT (comment_text c)))])) \<and>
         (\<not> ((\<exists>v. map_of d ''errors'' = Some v \<and> truthy v) \<or>
             (\<exists>v. map_of d ''errorMessages'' = Some v \<and> truthy v)) \<longrightarrow>
            key_in_response response = Inr (dict_get d ''key'') \<and>
            (\<exists>ext. snd (create_and_link_issue J self bug event tr) =
                     tr @ GetComments (bug_id bug)
                        # CreateIssue (create_fields J self bug
                                         (take JIRA_DESCRIPTION_CHAR_LIMIT (comment_text c)))
                        # GetBug (bug_id bug) # ext))"
proof (intro conjI impI)
  assume "(\<exists>v. map_of d ''errors'' = Some v \<and> truthy v) \<or>
          (\<exists>v. map_of d ''errorMessages'' = Some v \<and> truthy v)"
  then have "has_errors d" by (simp add: has_errors_iff)
  with shape have "key_in_response response = Inl ActionError"
    by (rule key_in_response_errors)
  with comments created show "create_and_link_issue J self bug event tr =
              (Inl ActionError,
               tr @ [GetComments (bug_id bug),
                     CreateIssue (create_fields J self bug
                                    (take JIRA_DESCRIPTION_CHAR_LIMIT (comment_text c)))])"
    by (simp add: create_and_link_issue_def Let_def)
next
  assume clean: "\<not> ((\<exists>v. map_of d ''errors'' = Some v \<and> truthy v) \<or>
             (\<exists>v. map_of d ''errorMessages'' = Some v \<and> truthy v))"
  then have "\<not> has_errors d" by (simp only: has_errors_iff not_False_eq_True)
  with shape show key: "key_in_response response = Inr (dict_get d ''key'')"
    by (rule key_in_response_clean)
  show "\<exists>ext. snd (create_and_link_issue J self bug event tr) =
                     tr @ GetComments (bug_id bug)
                        # CreateIssue (create_fields J self bug
                                         (take JIRA_DESCRIPTION_CHAR_LIMIT (comment_text c)))
                        # GetBug (bug_id bug) # ext"
    by (rule create_path_refetch [OF comments created key])
qed

theorem create_response_errors_witness:
  "create_and_link_issue demo_jbi rejecting_create demo_bug demo_event [] =
     (Inl ActionError, [GetComments 42, CreateIssue demo_create_fields]) \<and>
   key_in_response (JList [JDict [(''key'', JStr ''JBI-2''), (''errors'', JDict [])],
                           JDict [(''errorMessages'', JList [JStr ''no summary''])]]) =
     Inr (JStr ''JBI-2'') \<and>
   (\<exists>ext. snd (create_and_link_issue demo_jbi listed_create demo_bug demo_event []) =
           GetComments 42 # CreateIssue demo_create_fields # GetBug 42 # ext)"
  using create_response_errors [where self = rejecting_create and bug = demo_bug and tr = "[]"
      and c = "\<lparr>comment_text = ''Steps''\<rparr>" and cs = "[]" and J = demo_jbi and event = demo_event
      and response = "JList [JDict [(''errorMessages'', JList [JStr ''no summary'']), (''errors'', JDict [])]]"
      and d = "[(''errorMessages'', JList [JStr ''no summary'']), (''errors'', JDict [])]"]
    create_response_errors [where self = listed_create and bug = demo_bug and tr = "[]"
      and c = "\<lparr>comment_text = ''Steps''\<rparr>" and cs = "[]" and J = demo_jbi and event = demo_event
      and response = "JList [JDict [(''key'', JStr ''JBI-2''), (''errors'', JDict [])],
                             JDict [(''errorMessages'', JList [JStr ''no summary''])]]"
      and d = "[(''key'', JStr ''JBI-2''), (''errors'', JDict [])]"]
    demo_fields
  by (simp add: demo_defs rejecting_create_def listed_create_def create_fields_def jira_fields_def
      dict_get_def)

text \<open>
  C5: the description of the creation payload is the first comment's text cut to its first
  32767 characters (unchanged up to that length, of exactly that length beyond it), and
  the comments posted by the update flow are the mapped comments themselves, in order and
  whole: a prefix of the list, all of it when the event succeeds.
\<close>

theorem description_truncated:
  "(get_comments (bugzilla_client self) (bug_id bug) tr = Inr (c # cs) \<longrightarrow>
      (\<exists>ext. snd (create_and_link_issue J self bug event tr) =
                tr @ GetComments (bug_id bug)
                   # CreateIssue (create_fields J self bug (take 32767 (comment_text c))) # ext \<and>
              list_all (\<lambda>c. \<not> is_create_issue c) ext)) \<and>
   map_of (create_fields J self bug (take 32767 t)) ''description'' = Some (JStr (take 32767 t)) \<and>
   (length t \<le> 32767 \<longrightarrow> take JIRA_DESCRIPTION_CHAR_LIMIT t = t) \<and>
   (32767 < length t \<longrightarrow> length (take JIRA_DESCRIPTION_CHAR_LIMIT t) = 32767) \<and>
   (extract_from_see_also J bug = Some key \<and> key \<noteq> [] \<longrightarrow>
      (\<exists>n ext. snd (bug_create_or_update J self bug event tr) = tr @ ext \<and>
         comments_posted ext = take n (jira_comments_for_update J self bug event) \<and>
         (\<forall>res. fst (bug_create_or_update J self bug event tr) = Inr res \<longrightarrow>
                n = length (jira_comments_for_update J self bug event))))"
proof (intro conjI impI)
  assume "get_comments (bugzilla_client self) (bug_id bug) tr = Inr (c # cs)"
  from create_and_link_calls [OF this, of "\<lambda>c. \<not> is_create_issue c" J event]
  show "\<exists>ext. snd (create_and_link_issue J self bug event tr) =
                tr @ GetComments (bug_id bug)
                   # CreateIssue (create_fields J self bug (take 32767 (comment_text c))) # ext \<and>
              list_all (\<lambda>c. \<not> is_create_issue c) ext"
    by (simp add: JIRA_DESCRIPTION_CHAR_LIMIT_def)
next
  show "map_of (create_fields J self bug (take 32767 t)) ''description'' = Some (JStr (take 32767 t))"
    by (rule description_field)
next
  assume "length t \<le> 32767"
  then show "take JIRA_DESCRIPTION_CHAR_LIMIT t = t"
    by (simp add: JIRA_DESCRIPTION_CHAR_LIMIT_def)
next
  assume "32767 < length t"
  then show "length (take JIRA_DESCRIPTION_CHAR_LIMIT t) = 32767"
    by (simp add: JIRA_DESCRIPTION_CHAR_LIMIT_def)
next
  assume "extract_from_see_also J bug = Some key \<and> key \<noteq> []"
  then show "\<exists>n ext. snd (bug_create_or_update J self bug event tr) = tr @ ext \<and>
         comments_posted ext = take n (jira_comments_for_update J self bug event) \<and>
         (\<forall>res. fst (bug_create_or_update J self bug event tr) = Inr res \<longrightarrow>
                n = length (jira_comments_for_update J self bug event))"
    using update_path_comments [of J bug key self event tr] by blast
qed

theorem description_truncated_witness:
  "(\<exists>ext. snd (create_and_link_issue demo_jbi long_description demo_bug demo_event []) =
           GetComments 42
             # CreateIssue (create_fields demo_jbi long_description demo_bug
                              (replicate 32767 (CHR ''x''))) # ext \<and>
          list_all (\<lambda>c. \<not> is_create_issue c) ext) \<and>
   length (take JIRA_DESCRIPTION_CHAR_LIMIT (replicate 40000 (CHR ''x''))) = 32767 \<and>
   take JIRA_DESCRIPTION_CHAR_LIMIT ''Steps'' = ''Steps'' \<and>
   comments_posted (snd (bug_create_or_update demo_jbi demo_executor demo_linked_bug demo_event [])) =
     [''summary changed'']"
proof -
  note long = description_truncated [where self = long_description and bug = demo_bug and tr = "[]"
      and c = "\<lparr>comment_text = replicate 40000 (CHR ''x'')\<rparr>" and cs = "[]" and J = demo_jbi
      and event = demo_event and t = "replicate 40000 (CHR ''x'')" and key = "''JBI-1''"]
  note short = description_truncated [where self = demo_executor and bug = demo_linked_bug and tr = "[]"
      and c = "\<lparr>comment_text = ''Steps''\<rparr>" and cs = "[]" and J = demo_jbi
      and event = demo_event and t = "''Steps''" and key = "''JBI-1''"]
  have creation:
    "\<exists>ext. snd (create_and_link_issue demo_jbi long_description demo_bug demo_event []) =
           GetComments 42
             # CreateIssue (create_fields demo_jbi long_description demo_bug
                              (replicate 32767 (CHR ''x''))) # ext \<and>
          list_all (\<lambda>c. \<not> is_create_issue c) ext"
    using long by (simp add: demo_defs long_description_def)
  have cut: "length (take JIRA_DESCRIPTION_CHAR_LIMIT (replicate 40000 (CHR ''x''))) = 32767"
    using long by simp
  have kept: "take JIRA_DESCRIPTION_CHAR_LIMIT ''Steps'' = ''Steps''"
    using short by simp
  have linked: "extract_from_see_also demo_jbi demo_linked_bug = Some ''JBI-1'' \<and> ''JBI-1'' \<noteq> []"
    by (simp add: demo_defs)
  have mapped: "jira_comments_for_update demo_jbi demo_executor demo_linked_bug demo_event =
                  [''summary changed'']"
    by (simp add: demo_defs jira_comments_for_update_def)
  have handled: "fst (bug_create_or_update demo_jbi demo_executor demo_linked_bug demo_event []) =
                   Inr (True, [(''jira_responses'', JList [JNull, JList [JStr ''summary changed'']])])"
    by (simp add: demo_defs bug_create_or_update_def falsy_key_def of_opt_def update_issue_def
        jira_comments_for_update_def jira_fields_def bind_assoc)
  from short linked obtain n ext where
    "snd (bug_create_or_update demo_jbi demo_executor demo_linked_bug demo_event []) = [] @ ext"
    "comments_posted ext =
       take n (jira_comments_for_update demo_jbi demo_executor demo_linked_bug demo_event)"
    "\<forall>res. fst (bug_create_or_update demo_jbi demo_executor demo_linked_bug demo_event []) = Inr res
       \<longrightarrow> n = length (jira_comments_for_update demo_jbi demo_executor demo_linked_bug demo_event)"
    by blast
  with handled mapped
  have posted: "comments_posted (snd (bug_create_or_update demo_jbi demo_executor demo_linked_bug
                   demo_event [])) = [''summary changed'']"
    by simp
  from creation cut kept posted show ?thesis
    by blast
qed

text \<open>
  C6: with \<open>sync_whiteboard_labels\<close> false, no field payload sent to the issue tracker
  by the executor has a \<open>labels\<close> key, whatever the whiteboard holds (neither the update
  payload nor the creation payload nor a payload of the hook); with the flag true, \<open>labels\<close>
  is the list of the labels derived from the whiteboard, in both payloads.
\<close>

theorem labels_follow_flag:
  "(\<not> sync_whiteboard_labels self \<longrightarrow>
      ''labels'' \<notin> fst ` set (jira_fields J self bug) \<and>
      ''labels'' \<notin> fst ` set (create_fields J self bug d) \<and>
      (\<exists>ext. snd (executor_call J self bug event tr) = tr @ ext \<and>
             list_all (\<lambda>c. \<not> has_labels c) ext)) \<and>
   (sync_whiteboard_labels self \<longrightarrow>
      map_of (jira_fields J self bug) ''labels'' = Some (JList (map JStr (get_jira_labels J bug))) \<and>
      map_of (create_fields J self bug d) ''labels'' = Some (JList (map JStr (get_jira_labels J bug))))"
proof (intro conjI impI)
  assume off: "\<not> sync_whiteboard_labels self"
  show "''labels'' \<notin> fst ` set (jira_fields J self bug)"
    by (simp add: jira_fields_without_labels [OF off])
  show "''labels'' \<notin> fst ` set (create_fields J self bug d)"
    by (simp add: create_fields_def jira_fields_without_labels [OF off])
  show "\<exists>ext. snd (executor_call J self bug event tr) = tr @ ext \<and>
             list_all (\<lambda>c. \<not> has_labels c) ext"
    by (rule issuesD [OF no_labels_sent [OF off]])
next
  assume on: "sync_whiteboard_labels self"
  show "map_of (jira_fields J self bug) ''labels'' = Some (JList (map JStr (get_jira_labels J bug)))"
    by (simp add: jira_fields_with_labels [OF on])
  show "map_of (create_fields J self bug d) ''labels'' = Some (JList (map JStr (get_jira_labels J bug)))"
    by (simp add: create_fields_def jira_fields_with_labels [OF on])
qed

theorem labels_follow_flag_witness:
  "(\<exists>ext. snd (executor_call demo_jbi no_labels demo_linked_bug demo_event []) = ext \<and>
          list_all (\<lambda>c. \<not> has_labels c) ext) \<and>
   jira_fields demo_jbi no_labels demo_bug = [(''summary'', JStr ''Crash'')] \<and>
   map_of (jira_fields demo_jbi demo_executor demo_bug) ''labels'' =
     Some (JList [JStr ''bugzilla'', JStr ''[perf]'']) \<and>
   map_of (create_fields demo_jbi demo_executor demo_bug ''Steps'') ''labels'' =
     Some (JList [JStr ''bugzilla'', JStr ''[perf]''])"
  using labels_follow_flag [of no_labels demo_jbi demo_linked_bug "''Steps''" demo_event "[]"]
    labels_follow_flag [of demo_executor demo_jbi demo_bug "''Steps''" demo_event "[]"]
  by (simp add: demo_defs no_labels_def jira_fields_def of_opt_def)

section \<open>Updating a linked bug\<close>

text \<open>
  C2: for a bug whose reference field yields an issue key (a non-empty one), a bug-target
  event takes the update path: the first call is \<open>update_issue_field\<close> on the linked key
  with the mapped fields, no call of the event is \<open>create_issue\<close>, and when the field update
  and every comment post return, the calls are the field update, then one post per mapped
  comment in order, then those of the hook run with \<open>is_new = False\<close>, whose failure is
  the only way left for the event to fail.
\<close>

theorem linked_bug_is_updated:
  assumes linked: "extract_from_see_also J bug = Some key" "key \<noteq> []"
  shows "(\<exists>ext. snd (bug_create_or_update J self bug event tr) =
                 tr @ UpdateIssueField (JStr key) (jira_fields J self bug) # ext \<and>
               list_all (\<lambda>c. \<not> is_create_issue c) ext) \<and>
         (update_issue_field (jira_client self) (JStr key) (jira_fields J self bug) tr = Inr r \<and>
          length rs = length (jira_comments_for_update J self bug event) \<and>
          (\<forall>i<length (jira_comments_for_update J self bug event).
              issue_add_comment (jira_client self) (JStr key)
                (jira_comments_for_update J self bug event ! i)
                (tr @ UpdateIssueField (JStr key) (jira_fields J self bug)
                    # map (IssueAddComment (JStr key))
                        (take i (jira_comments_for_update J self bug event)))
              = Inr (rs ! i)) \<longrightarrow>
          bug_create_or_update J self bug event tr =
            (case update_issue J self bug event (JStr key) False
                    (tr @ UpdateIssueField (JStr key) (jira_fields J self bug)
                        # map (IssueAddComment (JStr key))
                            (jira_comments_for_update J self bug event)) of
               (Inl e, tr') \<Rightarrow> (Inl e, tr')
             | (Inr _, tr') \<Rightarrow> (Inr (True, [(''jira_responses'', JList [r, JList rs])]), tr')))"
proof (intro conjI impI)
  show "\<exists>ext. snd (bug_create_or_update J self bug event tr) =
                 tr @ UpdateIssueField (JStr key) (jira_fields J self bug) # ext \<and>
               list_all (\<lambda>c. \<not> is_create_issue c) ext"
    by (rule update_path_calls [OF linked]) simp_all
next
  assume "update_issue_field (jira_client self) (JStr key) (jira_fields J self bug) tr = Inr r \<and>
          length rs = length (jira_comments_for_update J self bug event) \<and>
          (\<forall>i<length (jira_comments_for_update J self bug event).
              issue_add_comment (jira_client self) (JStr key)
                (jira_comments_for_update J self bug event ! i)
                (tr @ UpdateIssueField (JStr key) (jira_fields J self bug)
                    # map (IssueAddComment (JStr key))
                        (take i (jira_comments_for_update J self bug event)))
              = Inr (rs ! i))"
  then show "bug_create_or_update J self bug event tr =
            (case update_issue J self bug event (JStr key) False
                    (tr @ UpdateIssueField (JStr key) (jira_fields J self bug)
                        # map (IssueAddComment (JStr key))
                            (jira_comments_for_update J self bug event)) of
               (Inl e, tr') \<Rightarrow> (Inl e, tr')
             | (Inr _, tr') \<Rightarrow> (Inr (True, [(''jira_responses'', JList [r, JList rs])]), tr'))"
    using update_path_result [OF linked, of self tr r rs event] by blast
qed

theorem linked_bug_is_updated_witness:
  "bug_create_or_update demo_jbi demo_executor demo_linked_bug demo_event [] =
     (Inr (True, [(''jira_responses'', JList [JNull, JList [JStr ''summary changed'']])]),
      [UpdateIssueField (JStr ''JBI-1'')
         [(''summary'', JStr ''Crash''), (''labels'', JList [JStr ''bugzilla'', JStr ''[perf]''])],
       IssueAddComment (JStr ''JBI-1'') ''summary changed''])"
  using linked_bug_is_updated [where J = demo_jbi and bug = demo_linked_bug and key = "''JBI-1''"
      and self = demo_executor and event = demo_event and tr = "[]" and r = JNull
      and rs = "[JStr ''summary changed'']"]
  by (simp add: demo_defs jira_fields_def jira_comments_for_update_def update_issue_def of_opt_def)

section \<open>The reconciler\<close>

text \<open>
  C9: for the reconciler class, with the changed fields taken from the event, and a bug
  assigned to \<open>nobody@mozilla.org\<close>: when \<open>is_new\<close> is false and \<open>assigned_to\<close> changed,
  the first call of \<open>update_issue\<close> is \<open>update_issue_field\<close> with assignee \<open>None\<close>, the
  status rule follows when that call returns, and no other call touches the assignee. When
  \<open>is_new\<close> is true, or when it is false and \<open>assigned_to\<close> did not change, the assignee
  rule makes no call at all: \<open>update_issue\<close> is the status rule alone.
\<close>

theorem assignee_sentinel:
  assumes cls: "cls self = AssigneeAndStatusExecutor smap rmap"
    and sentinel: "assigned_to bug = Some ''nobody@mozilla.org''"
  shows
   "(''assigned_to'' \<in> set (changed_of J event) \<longrightarrow>
       update_issue J self bug event k False tr =
         (case update_issue_field (jira_client self) k [(''assignee'', JNull)] tr of
            Inl e \<Rightarrow> (Inl e, tr @ [UpdateIssueField k [(''assignee'', JNull)]])
          | Inr _ \<Rightarrow> update_status smap rmap self bug (changed_of J event) k False
                      (tr @ [UpdateIssueField k [(''assignee'', JNull)]])) \<and>
       (\<exists>ext. snd (update_issue J self bug event k False tr) =
                 tr @ UpdateIssueField k [(''assignee'', JNull)] # ext \<and>
               list_all (\<lambda>c. \<not> assignee_call c) ext)) \<and>
    update_issue J self bug event k True tr =
      update_status smap rmap self bug (changed_of J event) k True tr \<and>
    (\<exists>ext. snd (update_issue J self bug event k True tr) = tr @ ext \<and>
           list_all (\<lambda>c. \<not> assignee_call c) ext) \<and>
    (''assigned_to'' \<notin> set (changed_of J event) \<longrightarrow>
       update_issue J self bug event k False tr =
         update_status smap rmap self bug (changed_of J event) k False tr \<and>
       (\<exists>ext. snd (update_issue J self bug event k False tr) = tr @ ext \<and>
              list_all (\<lambda>c. \<not> assignee_call c) ext))"
  using sentinel_clears [OF cls sentinel, of J event k tr]
    sentinel_clears_calls [OF cls sentinel, of J event k tr]
    assignee_rule_skipped [OF cls, of True bug J event k tr]
    assignee_rule_skipped_calls [OF cls, of True bug J event k tr]
    assignee_rule_skipped [OF cls, of False bug J event k tr]
    assignee_rule_skipped_calls [OF cls, of False bug J event k tr]
    sentinel
  by simp

theorem assignee_sentinel_witness:
  "update_issue demo_jbi reconciler (demo_bug\<lparr>assigned_to := Some ''nobody@mozilla.org''\<rparr>)
     (demo_event\<lparr>changes := Some [''assigned_to'']\<rparr>) (JStr ''JBI-1'') False [] =
     (Inr (), [UpdateIssueField (JStr ''JBI-1'') [(''assignee'', JNull)]]) \<and>
   update_issue demo_jbi reconciler (demo_bug\<lparr>assigned_to := Some ''nobody@mozilla.org''\<rparr>)
     (demo_event\<lparr>changes := None\<rparr>) (JStr ''JBI-2'') True [] =
     (Inr (), [SetIssueStatus (JStr ''JBI-2'') ''To Do'']) \<and>
   update_issue demo_jbi reconciler (demo_bug\<lparr>assigned_to := Some ''nobody@mozilla.org''\<rparr>)
     demo_event (JStr ''JBI-1'') False [] = (Inr (), [])"
  using assignee_sentinel [where self = reconciler
      and smap = "[''NEW'' \<mapsto> ''To Do'', ''FIXED'' \<mapsto> ''Done'']" and rmap = "[''FIXED'' \<mapsto> ''Fixed'']"
      and bug = "demo_bug\<lparr>assigned_to := Some ''nobody@mozilla.org''\<rparr>" and J = demo_jbi
      and event = "demo_event\<lparr>changes := Some [''assigned_to'']\<rparr>" and k = "JStr ''JBI-1''"
      and tr = "[]"]
    assignee_sentinel [where self = reconciler
      and smap = "[''NEW'' \<mapsto> ''To Do'', ''FIXED'' \<mapsto> ''Done'']" and rmap = "[''FIXED'' \<mapsto> ''Fixed'']"
      and bug = "demo_bug\<lparr>assigned_to := Some ''nobody@mozilla.org''\<rparr>" and J = demo_jbi
      and event = "demo_event\<lparr>changes := None\<rparr>" and k = "JStr ''JBI-2''" and tr = "[]"]
    assignee_sentinel [where self = reconciler
      and smap = "[''NEW'' \<mapsto> ''To Do'', ''FIXED'' \<mapsto> ''Done'']" and rmap = "[''FIXED'' \<mapsto> ''Fixed'']"
      and bug = "demo_bug\<lparr>assigned_to := Some ''nobody@mozilla.org''\<rparr>" and J = demo_jbi
      and event = demo_event and k = "JStr ''JBI-1''" and tr = "[]"]
  by (simp add: hook_defs update_status_def map_get_def py_or_def falsy_key_def bind_assoc
      clear_assignee_def)

text \<open>
  C8: for the reconciler class, with the changed fields taken from the event, when the
  assignee rule runs for another assignee and the lookup returns: with exactly one account
  \<open>update_issue\<close> tries to set it; when that call raises \<open>IOError\<close> it falls back to
  \<open>clear_assignee\<close> and goes on with the status rule instead of failing (any other
  exception propagates); with no account or several it goes to \<open>clear_assignee\<close> at once.
  \<open>clear_assignee\<close> calls \<open>update_issue_field\<close> with assignee \<open>None\<close> when \<open>is_new\<close> is
  false and does nothing when it is true.
\<close>

theorem assignee_lookup:
  assumes cls: "cls self = AssigneeAndStatusExecutor smap rmap"
    and run: "is_new \<or> ''assigned_to'' \<in> set (changed_of J event)"
    and named: "assigned_to bug \<noteq> Some ''nobody@mozilla.org''"
    and found: "user_find_by_user_string (jira_client self) (assigned_to bug) tr = Inr users"
  shows "(users = [JDict d] \<and> map_of d ''accountId'' = Some a \<longrightarrow>
           update_issue J self bug event k is_new tr =
             (case update_issue_field (jira_client self) k [(''assignee'', JDict [(''accountId'', a)])]
                     (tr @ [UserFindByUserString (assigned_to bug)]) of
                Inr _ \<Rightarrow>
                  update_status smap rmap self bug (changed_of J event) k is_new
                    (tr @ [UserFindByUserString (assigned_to bug),
                           UpdateIssueField k [(''assignee'', JDict [(''accountId'', a)])]])
              | Inl e \<Rightarrow>
                  if e = IOError
                  then bind (clear_assignee self k is_new)
                         (\<lambda>_. update_status smap rmap self bug (changed_of J event) k is_new)
                         (tr @ [UserFindByUserString (assigned_to bug),
                                UpdateIssueField k [(''assignee'', JDict [(''accountId'', a)])]])
                  else (Inl e, tr @ [UserFindByUserString (assigned_to bug),
                                     UpdateIssueField k [(''assignee'', JDict [(''accountId'', a)])]]))) \<and>
         (length users \<noteq> 1 \<longrightarrow>
           update_issue J self bug event k is_new tr =
             bind (clear_assignee self k is_new)
               (\<lambda>_. update_status smap rmap self bug (changed_of J event) k is_new)
               (tr @ [UserFindByUserString (assigned_to bug)])) \<and>
         clear_assignee self k False tr' =
           (map_sum id (\<lambda>_. ()) (update_issue_field (jira_client self) k [(''assignee'', JNull)] tr'),
            tr' @ [UpdateIssueField k [(''assignee'', JNull)]]) \<and>
         clear_assignee self k True tr' = (Inr (), tr')"
  using one_account_set [OF cls run named, of tr d a k]
    no_single_account_clears [OF cls run named found, of k] found
  by simp

theorem assignee_lookup_witness:
  "update_issue demo_jbi failing_set demo_bug (demo_event\<lparr>changes := Some [''assigned_to'']\<rparr>)
     (JStr ''JBI-1'') False [] =
     (Inr (), [UserFindByUserString (Some ''dev@mozilla.org''),
               UpdateIssueField (JStr ''JBI-1'') [(''assignee'', JDict [(''accountId'', JStr ''a1'')])],
               UpdateIssueField (JStr ''JBI-1'') [(''assignee'', JNull)]]) \<and>
   update_issue demo_jbi no_accounts demo_bug (demo_event\<lparr>changes := Some [''assigned_to'']\<rparr>)
     (JStr ''JBI-1'') False [] =
     (Inr (), [UserFindByUserString (Some ''dev@mozilla.org''),
               UpdateIssueField (JStr ''JBI-1'') [(''assignee'', JNull)]])"
  using assignee_lookup [where self = failing_set
      and smap = "[''NEW'' \<mapsto> ''To Do'', ''FIXED'' \<mapsto> ''Done'']" and rmap = "[''FIXED'' \<mapsto> ''Fixed'']"
      and is_new = False and J = demo_jbi and event = "demo_event\<lparr>changes := Some [''assigned_to'']\<rparr>"
      and bug = demo_bug and tr = "[]" and users = "[JDict [(''accountId'', JStr ''a1'')]]"
      and d = "[(''accountId'', JStr ''a1'')]" and a = "JStr ''a1''" and k = "JStr ''JBI-1''"
      and tr' = "[]"]
    assignee_lookup [where self = no_accounts
      and smap = "[''NEW'' \<mapsto> ''To Do'', ''FIXED'' \<mapsto> ''Done'']" and rmap = "[''FIXED'' \<mapsto> ''Fixed'']"
      and is_new = False and J = demo_jbi and event = "demo_event\<lparr>changes := Some [''assigned_to'']\<rparr>"
      and bug = demo_bug and tr = "[]" and users = "[]"
      and d = "[]" and a = JNull and k = "JStr ''JBI-1''" and tr' = "[]"]
  by (simp add: hook_defs update_status_def map_get_def py_or_def falsy_key_def bind_assoc
      clear_assignee_def)

text \<open>
  C7, as the claim states it, fails twice. A resolution that is present in the resolution
  map with an empty value passes the lookup and fails the test \<open>if jira_resolution:\<close>, so
  \<open>update_issue\<close> makes no call when that resolution changes. And the two lookups use
  different keys: with an empty resolution that the resolution map maps, the effective
  status key is the status, which may be in neither map, and the resolution is written all
  the same.
\<close>

theorem resolution_mapped_to_empty_counterexample:
  "cls empty_value = AssigneeAndStatusExecutor Map.empty [''FIXED'' \<mapsto> []] \<and>
   resolution (demo_bug\<lparr>resolution := Some ''FIXED''\<rparr>) = Some ''FIXED'' \<and>
   [''FIXED'' \<mapsto> []] ''FIXED'' = Some [] \<and>
   changed_fields demo_jbi (demo_event\<lparr>changes := Some [''resolution'']\<rparr>) = Some [''resolution''] \<and>
   update_issue demo_jbi empty_value (demo_bug\<lparr>resolution := Some ''FIXED''\<rparr>)
     (demo_event\<lparr>changes := Some [''resolution'']\<rparr>) (JStr ''JBI-1'') False [] = (Inr (), []) \<and>
   cls empty_key = AssigneeAndStatusExecutor Map.empty [[] \<mapsto> ''Unresolved''] \<and>
   resolution demo_bug = Some [] \<and> status demo_bug = Some ''NEW'' \<and>
   py_or (resolution demo_bug) (status demo_bug) = Some ''NEW'' \<and>
   Map.empty ''NEW'' = (None :: string option) \<and> [[] \<mapsto> ''Unresolved''] ''NEW'' = None \<and>
   update_issue demo_jbi empty_key demo_bug (demo_event\<lparr>changes := Some [''status'']\<rparr>)
     (JStr ''JBI-1'') False [] =
     (Inr (), [UpdateIssueField (JStr ''JBI-1'') [(''resolution'', JStr ''Unresolved'')]])"
  by (simp add: update_issue_def update_assignee_def update_status_def map_get_def py_or_def
      falsy_key_def hook_defs bind_assoc)

text \<open>
  C7, amended: for the reconciler class, with the changed fields taken from the event. The
  effective status key is the bug's resolution if that is non-empty, else its status. When
  the status rule runs (\<open>is_new\<close>, or \<open>status\<close> or \<open>resolution\<close> changed) after an assignee
  rule that returned: a resolution mapped to a non-empty value is written with
  \<open>update_issue_field\<close>, and when that call returns, an effective key mapped to a non-empty
  status is passed to \<open>set_issue_status\<close>; a resolution that is not mapped (or mapped to the
  empty string) is not written, and the status transition alone is made. When the rule does
  not run, or neither lookup gives a non-empty value, \<open>update_issue\<close> is the assignee rule
  alone, and an update event or a creation event whose other steps return is then reported
  as handled.
\<close>

theorem status_rule:
  assumes cls: "cls self = AssigneeAndStatusExecutor smap rmap"
  shows
   "py_or (resolution bug) (status bug) =
      (if resolution bug = None \<or> resolution bug = Some [] then status bug else resolution bug) \<and>
    (update_assignee self bug (changed_of J event) k is_new tr = (Inr (), tr1) \<and>
     (is_new \<or> ''status'' \<in> set (changed_of J event) \<or> ''resolution'' \<in> set (changed_of J event)) \<longrightarrow>
       (map_get rmap (resolution bug) = Some jr \<and> jr \<noteq> [] \<longrightarrow>
          update_issue J self bug event k is_new tr =
            (case update_issue_field (jira_client self) k [(''resolution'', JStr jr)] tr1 of
               Inl e \<Rightarrow> (Inl e, tr1 @ [UpdateIssueField k [(''resolution'', JStr jr)]])
             | Inr _ \<Rightarrow>
                 (case map_get smap (py_or (resolution bug) (status bug)) of
                    None \<Rightarrow> (Inr (), tr1 @ [UpdateIssueField k [(''resolution'', JStr jr)]])
                  | Some js \<Rightarrow>
                      if js \<noteq> [] then
                        (map_sum id (\<lambda>_. ())
                           (set_issue_status (jira_client self) k js
                              (tr1 @ [UpdateIssueField k [(''resolution'', JStr jr)]])),
                         tr1 @ [UpdateIssueField k [(''resolution'', JStr jr)], SetIssueStatus k js])
                      else (Inr (), tr1 @ [UpdateIssueField k [(''resolution'', JStr jr)]])))) \<and>
       ((map_get rmap (resolution bug) = None \<or> map_get rmap (resolution bug) = Some []) \<and>
        map_get smap (py_or (resolution bug) (status bug)) = Some js \<and> js \<noteq> [] \<longrightarrow>
          update_issue J self bug event k is_new tr =
            (map_sum id (\<lambda>_. ()) (set_issue_status (jira_client self) k js tr1),
             tr1 @ [SetIssueStatus k js]))) \<and>
    (\<not> (is_new \<or> ''status'' \<in> set (changed_of J event) \<or> ''resolution'' \<in> set (changed_of J event)) \<or>
     (map_get rmap (resolution bug) = None \<or> map_get rmap (resolution bug) = Some []) \<and>
     (map_get smap (py_or (resolution bug) (status bug)) = None \<or>
      map_get smap (py_or (resolution bug) (status bug)) = Some []) \<longrightarrow>
       update_issue J self bug event k is_new tr =
         update_assignee self bug (changed_of J event) k is_new tr) \<and>
    ((map_get rmap (resolution bug) = None \<or> map_get rmap (resolution bug) = Some []) \<and>
     (map_get smap (py_or (resolution bug) (status bug)) = None \<or>
      map_get smap (py_or (resolution bug) (status bug)) = Some []) \<and>
     extract_from_see_also J bug = Some key \<and> key \<noteq> [] \<and>
     update_issue_field (jira_client self) (JStr key) (jira_fields J self bug) tr = Inr r \<and>
     length rs = length (jira_comments_for_update J self bug event) \<and>
     (\<forall>i<length (jira_comments_for_update J self bug event).
         issue_add_comment (jira_client self) (JStr key)
           (jira_comments_for_update J self bug event ! i)
           (tr @ UpdateIssueField (JStr key) (jira_fields J self bug)
               # map (IssueAddComment (JStr key))
                   (take i (jira_comments_for_update J self bug event)))
         = Inr (rs ! i)) \<longrightarrow>
       bug_create_or_update J self bug event tr =
         (case update_assignee self bug (changed_of J event) (JStr key) False
                 (tr @ UpdateIssueField (JStr key) (jira_fields J self bug)
                     # map (IssueAddComment (JStr key)) (jira_comments_for_update J self bug event)) of
            (Inl e, tr') \<Rightarrow> (Inl e, tr')
          | (Inr _, tr') \<Rightarrow> (Inr (True, [(''jira_responses'', JList [r, JList rs])]), tr'))) \<and>
    ((map_get rmap (resolution bug') = None \<or> map_get rmap (resolution bug') = Some []) \<and>
     (map_get smap (py_or (resolution bug') (status bug')) = None \<or>
      map_get smap (py_or (resolution bug') (status bug')) = Some []) \<and>
     get_comments (bugzilla_client self) (bug_id new_bug) tr = Inr (c # cs) \<and>
     create_issue (jira_client self)
       (create_fields J self new_bug (take JIRA_DESCRIPTION_CHAR_LIMIT (comment_text c)))
       (tr @ [GetComments (bug_id new_bug)]) = Inr response \<and>
     key_in_response response = Inr K \<and>
     get_bug (bugzilla_client self) (bug_id new_bug)
       (tr @ [GetComments (bug_id new_bug),
              CreateIssue (create_fields J self new_bug
                             (take JIRA_DESCRIPTION_CHAR_LIMIT (comment_text c)))]) = Inr bug' \<and>
     (extract_from_see_also J bug' = None \<or> K = of_opt (extract_from_see_also J bug')) \<and>
     update_bug (bugzilla_client self) (bug_id bug') (jira_base_url J @ ''browse/'' @ py_str J K)
       (tr @ [GetComments (bug_id new_bug),
              CreateIssue (create_fields J self new_bug
                             (take JIRA_DESCRIPTION_CHAR_LIMIT (comment_text c))),
              GetBug (bug_id new_bug)]) = Inr bugzilla_response \<and>
     create_or_update_issue_remote_links (jira_client self) K
       (bugzilla_base_url J @ ''/show_bug.cgi?id='' @ show_int (bug_id bug'))
       (bugzilla_base_url J @ ''/show_bug.cgi?id='' @ show_int (bug_id bug'))
       (tr @ [GetComments (bug_id new_bug),
              CreateIssue (create_fields J self new_bug
                             (take JIRA_DESCRIPTION_CHAR_LIMIT (comment_text c))),
              GetBug (bug_id new_bug),
              UpdateBug (bug_id bug') (jira_base_url J @ ''browse/'' @ py_str J K)])
       = Inr jira_response \<longrightarrow>
       create_and_link_issue J self new_bug event tr =
         (case update_assignee self bug' (changed_of J event) K True
                 (tr @ [GetComments (bug_id new_bug),
                        CreateIssue (create_fields J self new_bug
                                       (take JIRA_DESCRIPTION_CHAR_LIMIT (comment_text c))),
                        GetBug (bug_id new_bug),
                        UpdateBug (bug_id bug') (jira_base_url J @ ''browse/'' @ py_str J K),
                        CreateOrUpdateIssueRemoteLinks K
                          (bugzilla_base_url J @ ''/show_bug.cgi?id='' @ show_int (bug_id bug'))
                          (bugzilla_base_url J @ ''/show_bug.cgi?id='' @ show_int (bug_id bug'))]) of
            (Inl e, tr') \<Rightarrow> (Inl e, tr')
          | (Inr _, tr') \<Rightarrow>
              (Inr (True, [(''bugzilla_response'', bugzilla_response),
                           (''jira_response'', jira_response)]), tr')))"
  apply (intro conjI impI)
  subgoal by (rule effective_status_key)
  subgoal using hook_status_resolution [OF cls, of bug J event k is_new tr tr1 jr] by blast
  subgoal using hook_status_only [OF cls, of bug J event k is_new tr tr1 js] by blast
  subgoal using hook_status_idle [OF cls, of is_new J event bug k tr] by blast
  subgoal using update_event_handled [OF cls, of bug J key tr r rs event] by blast
  subgoal
    using create_event_handled [OF cls, of bug' new_bug tr c cs J response K bugzilla_response
        jira_response event]
    by blast
  done

theorem status_rule_witness:
  "update_issue demo_jbi reconciler (demo_bug\<lparr>resolution := Some ''FIXED''\<rparr>)
     (demo_event\<lparr>changes := Some [''resolution'']\<rparr>) (JStr ''JBI-1'') False [] =
     (Inr (), [UpdateIssueField (JStr ''JBI-1'') [(''resolution'', JStr ''Fixed'')],
               SetIssueStatus (JStr ''JBI-1'') ''Done'']) \<and>
   update_issue demo_jbi reconciler demo_bug (demo_event\<lparr>changes := Some [''status'']\<rparr>)
     (JStr ''JBI-1'') False [] = (Inr (), [SetIssueStatus (JStr ''JBI-1'') ''To Do'']) \<and>
   update_issue demo_jbi reconciler unmapped_bug (demo_event\<lparr>changes := Some [''status'']\<rparr>)
     (JStr ''JBI-1'') False [] = (Inr (), []) \<and>
   update_issue demo_jbi reconciler demo_bug demo_event (JStr ''JBI-1'') False [] = (Inr (), []) \<and>
   bug_create_or_update demo_jbi reconciler unmapped_bug (demo_event\<lparr>changes := Some [''status'']\<rparr>) [] =
     (Inr (True, [(''jira_responses'', JList [JNull, JList [JStr ''status changed'']])]),
      [UpdateIssueField (JStr ''JBI-1'')
         [(''summary'', JStr ''Crash''), (''labels'', JList [JStr ''bugzilla'', JStr ''[perf]''])],
       IssueAddComment (JStr ''JBI-1'') ''status changed'']) \<and>
   fst (create_and_link_issue demo_jbi empty_value demo_bug demo_event []) =
     Inr (True, [(''bugzilla_response'', JNull), (''jira_response'', JNull)])"
proof -
  note fixed = status_rule [where self = reconciler
      and smap = "[''NEW'' \<mapsto> ''To Do'', ''FIXED'' \<mapsto> ''Done'']" and rmap = "[''FIXED'' \<mapsto> ''Fixed'']"
      and bug = "demo_bug\<lparr>resolution := Some ''FIXED''\<rparr>" and J = demo_jbi
      and event = "demo_event\<lparr>changes := Some [''resolution'']\<rparr>" and k = "JStr ''JBI-1''"
      and is_new = False and tr = "[]" and ?tr1.0 = "[]" and jr = "''Fixed''" and js = "''Done''"]
  note new = status_rule [where self = reconciler
      and smap = "[''NEW'' \<mapsto> ''To Do'', ''FIXED'' \<mapsto> ''Done'']" and rmap = "[''FIXED'' \<mapsto> ''Fixed'']"
      and bug = demo_bug and J = demo_jbi
      and event = "demo_event\<lparr>changes := Some [''status'']\<rparr>" and k = "JStr ''JBI-1''"
      and is_new = False and tr = "[]" and ?tr1.0 = "[]" and jr = "''Fixed''" and js = "''To Do''"]
  note unmapped = status_rule [where self = reconciler
      and smap = "[''NEW'' \<mapsto> ''To Do'', ''FIXED'' \<mapsto> ''Done'']" and rmap = "[''FIXED'' \<mapsto> ''Fixed'']"
      and bug = unmapped_bug and J = demo_jbi
      and event = "demo_event\<lparr>changes := Some [''status'']\<rparr>" and k = "JStr ''JBI-1''"
      and is_new = False and tr = "[]" and key = "''JBI-1''" and r = JNull
      and rs = "[JStr ''status changed'']"]
  note not_run = status_rule [where self = reconciler
      and smap = "[''NEW'' \<mapsto> ''To Do'', ''FIXED'' \<mapsto> ''Done'']" and rmap = "[''FIXED'' \<mapsto> ''Fixed'']"
      and bug = demo_bug and J = demo_jbi and event = demo_event and k = "JStr ''JBI-1''"
      and is_new = False and tr = "[]"]
  note created = status_rule [where self = empty_value
      and smap = Map.empty and rmap = "[''FIXED'' \<mapsto> []]"
      and J = demo_jbi and event = demo_event and tr = "[]" and new_bug = demo_bug
      and bug' = demo_bug and c = "\<lparr>comment_text = ''Steps''\<rparr>" and cs = "[]"
      and response = "JDict [(''key'', JStr ''JBI-2'')]" and K = "JStr ''JBI-2''"
      and bugzilla_response = JNull and jira_response = JNull]
  have a: "update_issue demo_jbi reconciler (demo_bug\<lparr>resolution := Some ''FIXED''\<rparr>)
     (demo_event\<lparr>changes := Some [''resolution'']\<rparr>) (JStr ''JBI-1'') False [] =
     (Inr (), [UpdateIssueField (JStr ''JBI-1'') [(''resolution'', JStr ''Fixed'')],
               SetIssueStatus (JStr ''JBI-1'') ''Done''])"
    using fixed by (simp add: hook_defs update_assignee_def map_get_def py_or_def falsy_key_def bind_assoc)
  have b: "update_issue demo_jbi reconciler demo_bug (demo_event\<lparr>changes := Some [''status'']\<rparr>)
     (JStr ''JBI-1'') False [] = (Inr (), [SetIssueStatus (JStr ''JBI-1'') ''To Do''])"
    using new by (simp add: hook_defs update_assignee_def map_get_def py_or_def falsy_key_def bind_assoc)
  have c: "update_issue demo_jbi reconciler unmapped_bug (demo_event\<lparr>changes := Some [''status'']\<rparr>)
     (JStr ''JBI-1'') False [] = (Inr (), [])"
    using unmapped by (simp add: hook_defs update_assignee_def map_get_def py_or_def falsy_key_def bind_assoc)
  have d: "update_issue demo_jbi reconciler demo_bug demo_event (JStr ''JBI-1'') False [] = (Inr (), [])"
    using not_run by (simp add: hook_defs update_assignee_def map_get_def py_or_def falsy_key_def bind_assoc)
  have e: "bug_create_or_update demo_jbi reconciler unmapped_bug (demo_event\<lparr>changes := Some [''status'']\<rparr>) [] =
     (Inr (True, [(''jira_responses'', JList [JNull, JList [JStr ''status changed'']])]),
      [UpdateIssueField (JStr ''JBI-1'')
         [(''summary'', JStr ''Crash''), (''labels'', JList [JStr ''bugzilla'', JStr ''[perf]''])],
       IssueAddComment (JStr ''JBI-1'') ''status changed''])"
    using unmapped
    by (simp add: hook_defs update_assignee_def map_get_def py_or_def falsy_key_def
        jira_fields_def jira_comments_for_update_def of_opt_def)
  have f: "fst (create_and_link_issue demo_jbi empty_value demo_bug demo_event []) =
     Inr (True, [(''bugzilla_response'', JNull), (''jira_response'', JNull)])"
    using created
    by (simp add: hook_defs update_assignee_def map_get_def py_or_def falsy_key_def
        key_in_response_def has_errors_def dict_get_def of_opt_def except_IOError_def
        subscript_def bind_assoc)
  from a b c d e f show ?thesis by blast
qed

end
